theory Spec2Isabelle
  imports Main "HOL-Library.Word"
begin

section \<open>Backoff policy (retry.server.ts, calculateBackoffDelay)\<close>

text \<open>
  \<^verbatim>\<open>
  export function calculateBackoffDelay(retryCount: number): number {
      const baseDelay = 2000; // 2 seconds
      const maxDelay = 300000; // 5 minutes
      const delay = Math.min(baseDelay * Math.pow(2, retryCount), maxDelay);
      return delay;
  }
  \<close>
  The argument ranges over the non-negative integers (the attempt index of the caller's
  loop), so it is a \<open>nat\<close>. For such an argument \<open>2000 * 2 ^ n\<close> is an integer that a
  JavaScript number holds exactly until it overflows to \<open>Infinity\<close>, far above the
  ceiling, so \<open>Math.min\<close> agrees with \<open>min\<close> on the naturals. Delays are milliseconds.
\<close>

definition baseDelay :: nat where
  "baseDelay = 2000"

definition maxDelay :: nat where
  "maxDelay = 300000"

definition calculateBackoffDelay :: "nat \<Rightarrow> nat" where
  "calculateBackoffDelay retryCount = min (baseDelay * 2 ^ retryCount) maxDelay"

section \<open>JavaScript strings\<close>

text \<open>
  A JavaScript string is a sequence of UTF-16 code units and \<open>length\<close> counts code units.
  \<open>js\<close> embeds an ASCII literal.
\<close>

type_synonym jschar = "16 word"
type_synonym jsstring = "jschar list"

definition js :: "string \<Rightarrow> jsstring" where
  "js s = map of_char s"

text \<open>
  The characters that \<open>String.prototype.trim\<close> removes and that \<open>\s\<close> matches in a regular
  expression: WhiteSpace (TAB, VT, FF, SP, NBSP, ZWNBSP and the Unicode space separators)
  and LineTerminator (LF, CR, LS, PS).
\<close>

definition isWhiteSpace :: "jschar \<Rightarrow> bool" where
  "isWhiteSpace c \<longleftrightarrow>
     c = 0x09 \<or> c = 0x0A \<or> c = 0x0B \<or> c = 0x0C \<or> c = 0x0D \<or> c = 0x20 \<or> c = 0xA0
     \<or> c = 0x1680 \<or> (0x2000 \<le> c \<and> c \<le> 0x200A) \<or> c = 0x2028 \<or> c = 0x2029
     \<or> c = 0x202F \<or> c = 0x205F \<or> c = 0x3000 \<or> c = 0xFEFF"

definition trimStart :: "jsstring \<Rightarrow> jsstring" where
  "trimStart s = dropWhile isWhiteSpace s"

definition trimEnd :: "jsstring \<Rightarrow> jsstring" where
  "trimEnd s = rev (dropWhile isWhiteSpace (rev s))"

definition trim :: "jsstring \<Rightarrow> jsstring" where
  "trim s = trimEnd (trimStart s)"

text \<open>
  \<^verbatim>\<open>s.slice(0, end)\<close>: a negative \<open>end\<close> counts from the end of the string.
\<close>

definition slice0 :: "jsstring \<Rightarrow> int \<Rightarrow> jsstring" where
  "slice0 s e = (if e < 0 then take (nat (int (length s) + e)) s else take (nat e) s)"

text \<open>
  \<^verbatim>\<open>alt.replace(/^['\"]+|['\"]+$/g, "")\<close>: the first alternative matches the whole run of
  quote characters at the start, the second the whole run of quote characters that
  reaches the end of what is left; both runs are deleted.
\<close>

definition isQuote :: "jschar \<Rightarrow> bool" where
  "isQuote c \<longleftrightarrow> c = 0x27 \<or> c = 0x22"

definition stripQuotes :: "jsstring \<Rightarrow> jsstring" where
  "stripQuotes s = rev (dropWhile isQuote (rev (dropWhile isQuote s)))"

text \<open>
  \<^verbatim>\<open>alt.replace(/\s+/g, ' ')\<close>: every maximal run of whitespace becomes one space.
\<close>

function collapseWhitespace :: "jsstring \<Rightarrow> jsstring" where
  "collapseWhitespace [] = []"
| "collapseWhitespace (c # cs) =
     (if isWhiteSpace c then 0x20 # collapseWhitespace (dropWhile isWhiteSpace cs)
      else c # collapseWhitespace cs)"
  by pat_completeness auto
termination
  by (relation "measure length") (auto simp: length_dropWhile_le less_Suc_eq_le)

text \<open>
  A regular expression that is a literal: \<open>regexTest pat s\<close> is \<^verbatim>\<open>/pat/.test(s)\<close>, and
  \<open>regexTestCI pat s\<close> is \<^verbatim>\<open>/pat/i.test(s)\<close>. Without the unicode flag the \<open>i\<close> flag
  compares upper-cased code units and never maps a non-ASCII character to an ASCII one,
  so for an ASCII pattern only the ASCII letters fold.
\<close>

fun startsWith :: "jsstring \<Rightarrow> jsstring \<Rightarrow> bool" where
  "startsWith [] s = True"
| "startsWith (p # ps) [] = False"
| "startsWith (p # ps) (c # cs) = (p = c \<and> startsWith ps cs)"

fun regexTest :: "jsstring \<Rightarrow> jsstring \<Rightarrow> bool" where
  "regexTest pat [] = (pat = [])"
| "regexTest pat (c # cs) = (startsWith pat (c # cs) \<or> regexTest pat cs)"

definition canonicalize :: "jschar \<Rightarrow> jschar" where
  "canonicalize c = (if 0x61 \<le> c \<and> c \<le> 0x7A then c - 0x20 else c)"

definition regexTestCI :: "jsstring \<Rightarrow> jsstring \<Rightarrow> bool" where
  "regexTestCI pat s = regexTest (map canonicalize pat) (map canonicalize s)"

section \<open>Errors\<close>

text \<open>
  A thrown JavaScript error: its \<open>name\<close>, its \<open>message\<close> and the \<open>status\<close> property that
  the provider's client sets on HTTP failures (absent on a plain \<open>Error\<close>).
  \<open>newError msg\<close> is \<^verbatim>\<open>new Error(msg)\<close>.
\<close>

record jsError =
  e_name :: jsstring
  e_status :: "int option"
  e_message :: jsstring

definition newError :: "jsstring \<Rightarrow> jsError" where
  "newError msg = \<lparr>e_name = js ''Error'', e_status = None, e_message = msg\<rparr>"

text \<open>\<^verbatim>\<open>String(error)\<close>, that is \<open>Error.prototype.toString\<close>.\<close>

definition errorToString :: "jsError \<Rightarrow> jsstring" where
  "errorToString e =
     (if e_message e = [] then e_name e
      else if e_name e = [] then e_message e
      else e_name e @ js '': '' @ e_message e)"

text \<open>
  \<^verbatim>\<open>
  export function isRetryableError(error: any): boolean {
      const errorMessage = error?.message || String(error);
      const retryablePatterns = [/rate limit/i, /429/, /timeout/i, /ECONNRESET/, /ETIMEDOUT/, /network/i];
      return retryablePatterns.some((pattern) => pattern.test(errorMessage));
  }
  \<close>
\<close>

definition isRetryableError :: "jsError \<Rightarrow> bool" where
  "isRetryableError error =
     (let errorMessage = (if e_message error \<noteq> [] then e_message error else errorToString error)
      in regexTestCI (js ''rate limit'') errorMessage
         \<or> regexTest (js ''429'') errorMessage
         \<or> regexTestCI (js ''timeout'') errorMessage
         \<or> regexTest (js ''ECONNRESET'') errorMessage
         \<or> regexTest (js ''ETIMEDOUT'') errorMessage
         \<or> regexTestCI (js ''network'') errorMessage)"

section \<open>Settings (settings.server.ts)\<close>

datatype altTextStyle = Professional | Casual | Technical | Creative

datatype altTextLength = Short | Medium | Long

record settings =
  set_altTextStyle :: altTextStyle
  set_altTextLength :: altTextLength
  set_customPrompt :: "jsstring option"
  set_batchSize :: int
  set_autoRetry :: bool
  set_maxRetries :: int

definition DEFAULT_SETTINGS :: settings where
  "DEFAULT_SETTINGS =
     \<lparr>set_altTextStyle = Professional, set_altTextLength = Medium, set_customPrompt = None,
      set_batchSize = 3, set_autoRetry = True, set_maxRetries = 3\<rparr>"

text \<open>
  \<^verbatim>\<open>
  export function getMaxLength(length: AltTextLength): number {
      switch (length) {
          case "short": return 60;
          case "medium": return 100;
          case "long": return 125;
          default: return 100;
      }
  }
  \<close>
  The \<open>default\<close> branch is not reachable for a value of the declared type.
\<close>

fun getMaxLength :: "altTextLength \<Rightarrow> nat" where
  "getMaxLength Short = 60"
| "getMaxLength Medium = 100"
| "getMaxLength Long = 125"

section \<open>The persistent store\<close>

text \<open>
  The tables of the migration, with the column defaults it declares. Times are
  milliseconds since the epoch. The store gives every new row an identifier that no
  earlier row has; \<open>db_nextId\<close> is the counter that stands for it. The operations
  below say what a call does when the store accepts it; an update of a row that is not
  there, or one that carries an invalid date, is rejected. In the image loop of the scan
  a write can also throw, as the scan's environment says, and then leaves the store as
  it was.
\<close>

datatype scanStatus = Running | Completed | CompletedWithErrors

datatype imageStatus = Success | Failed | Skipped

datatype jobStatus = Pending | Retrying | FailedPermanent

record scanHistoryRow =
  s_id :: nat
  s_shop :: jsstring
  s_startedAt :: int
  s_completedAt :: "int option"
  s_totalProducts :: int
  s_totalImages :: int
  s_imagesProcessed :: int
  s_imagesSkipped :: int
  s_imagesFailed :: int
  s_status :: scanStatus
  s_forceAll :: bool

record processedImageRow =
  pi_id :: nat
  pi_scanId :: nat
  pi_productId :: jsstring
  pi_productTitle :: jsstring
  pi_imageId :: jsstring
  pi_imageUrl :: jsstring
  pi_oldAltText :: "jsstring option"
  pi_newAltText :: jsstring
  pi_processedAt :: int
  pi_status :: imageStatus
  pi_errorMessage :: "jsstring option"

record failedJobRow =
  j_id :: nat
  j_shop :: jsstring
  j_productId :: jsstring
  j_productTitle :: jsstring
  j_imageId :: jsstring
  j_imageUrl :: jsstring
  j_errorMessage :: jsstring
  j_retryCount :: int
  j_maxRetries :: int
  j_nextRetryAt :: "int option"
  j_createdAt :: int
  j_lastAttemptAt :: int
  j_status :: jobStatus

record db =
  appSettings :: "jsstring \<rightharpoonup> settings"
  scanHistory :: "nat \<rightharpoonup> scanHistoryRow"
  processedImage :: "processedImageRow list"
  failedJob :: "nat \<rightharpoonup> failedJobRow"
  db_nextId :: nat

definition emptyDb :: db where
  "emptyDb = \<lparr>appSettings = Map.empty, scanHistory = Map.empty, processedImage = [],
              failedJob = Map.empty, db_nextId = 0\<rparr>"

datatype dbError = JobNotFound | RecordNotFound | InvalidDate

text \<open>
  \<^verbatim>\<open>
  export async function getSettings(shop: string): Promise<Settings> {
      let settings = await db.appSettings.findUnique({ where: { shop } });
      if (!settings) {
          settings = await db.appSettings.create({ data: { shop, ...DEFAULT_SETTINGS } });
      }
      return { altTextStyle: ..., ..., maxRetries: settings.maxRetries };
  }
  \<close>
\<close>

definition getSettings :: "jsstring \<Rightarrow> db \<Rightarrow> settings \<times> db" where
  "getSettings shop d =
     (case appSettings d shop of
        Some settings \<Rightarrow> (settings, d)
      | None \<Rightarrow> (DEFAULT_SETTINGS,
                 d\<lparr>appSettings := (appSettings d)(shop \<mapsto> DEFAULT_SETTINGS),
                   db_nextId := Suc (db_nextId d)\<rparr>))"

section \<open>Scan history (analytics.server.ts)\<close>

text \<open>
  \<^verbatim>\<open>
  export async function createScanHistory(shop: string, forceAll: boolean = false) {
      return await db.scanHistory.create({ data: { shop, forceAll, status: "running" } });
  }
  \<close>
\<close>

definition createScanHistory :: "jsstring \<Rightarrow> bool \<Rightarrow> int \<Rightarrow> db \<Rightarrow> scanHistoryRow \<times> db" where
  "createScanHistory shop forceAll now d =
     (let row = \<lparr>s_id = db_nextId d, s_shop = shop, s_startedAt = now, s_completedAt = None,
                 s_totalProducts = 0, s_totalImages = 0, s_imagesProcessed = 0,
                 s_imagesSkipped = 0, s_imagesFailed = 0, s_status = Running,
                 s_forceAll = forceAll\<rparr>
      in (row, d\<lparr>scanHistory := (scanHistory d)(db_nextId d \<mapsto> row),
                 db_nextId := Suc (db_nextId d)\<rparr>))"

record scanStats =
  totalProducts :: int
  totalImages :: int
  imagesProcessed :: int
  imagesSkipped :: int
  imagesFailed :: int

text \<open>
  \<^verbatim>\<open>
  export async function completeScanHistory(scanId, stats) {
      return await db.scanHistory.update({
          where: { id: scanId },
          data: { ...stats, completedAt: new Date(),
                  status: stats.imagesFailed > 0 ? "completed_with_errors" : "completed" },
      });
  }
  \<close>
  An update of a row that does not exist is rejected by the store.
\<close>

definition completeScanHistory ::
  "nat \<Rightarrow> scanStats \<Rightarrow> int \<Rightarrow> db \<Rightarrow> dbError + scanHistoryRow \<times> db" where
  "completeScanHistory scanId stats now d =
     (case scanHistory d scanId of
        None \<Rightarrow> Inl RecordNotFound
      | Some row \<Rightarrow>
          (let row' = row\<lparr>s_totalProducts := totalProducts stats,
                           s_totalImages := totalImages stats,
                           s_imagesProcessed := imagesProcessed stats,
                           s_imagesSkipped := imagesSkipped stats,
                           s_imagesFailed := imagesFailed stats,
                           s_completedAt := Some now,
                           s_status := (if imagesFailed stats > 0 then CompletedWithErrors
                                        else Completed)\<rparr>
           in Inr (row', d\<lparr>scanHistory := (scanHistory d)(scanId \<mapsto> row')\<rparr>)))"

text \<open>
  \<^verbatim>\<open>
  export async function recordImageProcessing(data: { scanId; productId; productTitle; imageId;
      imageUrl; oldAltText: string | null; newAltText: string;
      status: "success" | "failed" | "skipped"; errorMessage?: string }) {
      return await db.processedImage.create({ data });
  }
  \<close>
\<close>

record imageProcessingData =
  ip_scanId :: nat
  ip_productId :: jsstring
  ip_productTitle :: jsstring
  ip_imageId :: jsstring
  ip_imageUrl :: jsstring
  ip_oldAltText :: "jsstring option"
  ip_newAltText :: jsstring
  ip_status :: imageStatus
  ip_errorMessage :: "jsstring option"

definition recordImageProcessing :: "imageProcessingData \<Rightarrow> int \<Rightarrow> db \<Rightarrow> db" where
  "recordImageProcessing data now d =
     d\<lparr>processedImage := processedImage d @
          [\<lparr>pi_id = db_nextId d, pi_scanId = ip_scanId data, pi_productId = ip_productId data,
            pi_productTitle = ip_productTitle data, pi_imageId = ip_imageId data,
            pi_imageUrl = ip_imageUrl data, pi_oldAltText = ip_oldAltText data,
            pi_newAltText = ip_newAltText data, pi_processedAt = now, pi_status = ip_status data,
            pi_errorMessage = ip_errorMessage data\<rparr>],
       db_nextId := Suc (db_nextId d)\<rparr>"

section \<open>Dead-letter queue (retry.server.ts)\<close>

text \<open>
  \<^verbatim>\<open>
  export async function addFailedJob(data: { shop; productId; productTitle; imageId; imageUrl;
      errorMessage; maxRetries?: number }) {
      const nextRetryAt = new Date(Date.now() + 60000); // Retry in 1 minute
      return await db.failedJob.create({
          data: { ...data, maxRetries: data.maxRetries || 3, nextRetryAt, retryCount: 0,
                  status: "pending" },
      });
  }
  \<close>
  \<open>data.maxRetries || 3\<close> takes the default when the field is absent and also when it
  is \<open>0\<close>, which is falsy.
\<close>

record failedJobData =
  fj_shop :: jsstring
  fj_productId :: jsstring
  fj_productTitle :: jsstring
  fj_imageId :: jsstring
  fj_imageUrl :: jsstring
  fj_errorMessage :: jsstring
  fj_maxRetries :: "int option"

definition addFailedJob :: "failedJobData \<Rightarrow> int \<Rightarrow> db \<Rightarrow> failedJobRow \<times> db" where
  "addFailedJob data now d =
     (let nextRetryAt = now + 60000;
          row = \<lparr>j_id = db_nextId d, j_shop = fj_shop data, j_productId = fj_productId data,
                 j_productTitle = fj_productTitle data, j_imageId = fj_imageId data,
                 j_imageUrl = fj_imageUrl data, j_errorMessage = fj_errorMessage data,
                 j_retryCount = 0,
                 j_maxRetries = (case fj_maxRetries data of
                                   None \<Rightarrow> 3
                                 | Some m \<Rightarrow> if m = 0 then 3 else m),
                 j_nextRetryAt = Some nextRetryAt, j_createdAt = now, j_lastAttemptAt = now,
                 j_status = Pending\<rparr>
      in (row, d\<lparr>failedJob := (failedJob d)(db_nextId d \<mapsto> row),
                 db_nextId := Suc (db_nextId d)\<rparr>))"

text \<open>
  \<^verbatim>\<open>
  export async function scheduleRetry(jobId: string, delayMs: number = 120000) {
      const job = await db.failedJob.findUnique({ where: { id: jobId } });
      if (!job) { throw new Error("Job not found"); }
      const newRetryCount = job.retryCount + 1;
      const nextRetryAt = new Date(Date.now() + delayMs);
      if (newRetryCount >= job.maxRetries) {
          return await db.failedJob.update({ where: { id: jobId },
              data: { retryCount: newRetryCount, status: "failed_permanent",
                      lastAttemptAt: new Date() } });
      }
      return await db.failedJob.update({ where: { id: jobId },
          data: { retryCount: newRetryCount, nextRetryAt, status: "pending",
                  lastAttemptAt: new Date() } });
  }
  \<close>
  The optional argument \<open>delayMs\<close> is an \<open>int option\<close>; \<open>None\<close> is the call without it.
  \<open>now\<close> is the clock reading \<open>Date.now()\<close>. A \<open>Date\<close> holds a time value of at most
  8.64e15 milliseconds either side of the epoch: \<open>new Date(v)\<close> beyond that is an
  Invalid Date (\<open>newDate v = None\<close>), and the store rejects an update that carries one,
  leaving the row as it was. The date is built before the test of the ceiling and is
  only stored by the second update.
\<close>

definition newDate :: "int \<Rightarrow> int option" where
  "newDate v = (if - 8640000000000000 \<le> v \<and> v \<le> 8640000000000000 then Some v else None)"

definition scheduleRetry ::
  "nat \<Rightarrow> int option \<Rightarrow> int \<Rightarrow> db \<Rightarrow> dbError + failedJobRow \<times> db" where
  "scheduleRetry jobId delayMsArg now d =
     (let delayMs = (case delayMsArg of None \<Rightarrow> 120000 | Some ms \<Rightarrow> ms)
      in case failedJob d jobId of
           None \<Rightarrow> Inl JobNotFound
         | Some job \<Rightarrow>
             (let newRetryCount = j_retryCount job + 1;
                  nextRetryAt = newDate (now + delayMs)
              in if newRetryCount \<ge> j_maxRetries job
                 then (let job' = job\<lparr>j_retryCount := newRetryCount,
                                        j_status := FailedPermanent,
                                        j_lastAttemptAt := now\<rparr>
                       in Inr (job', d\<lparr>failedJob := (failedJob d)(jobId \<mapsto> job')\<rparr>))
                 else (case nextRetryAt of
                         None \<Rightarrow> Inl InvalidDate
                       | Some next \<Rightarrow>
                           (let job' = job\<lparr>j_retryCount := newRetryCount,
                                              j_nextRetryAt := Some next,
                                              j_status := Pending,
                                              j_lastAttemptAt := now\<rparr>
                            in Inr (job', d\<lparr>failedJob := (failedJob d)(jobId \<mapsto> job')\<rparr>)))))"

section \<open>Caption generator (gemini.server.ts, generateAltText)\<close>

text \<open>
  The sanitation of the provider's answer:
  \<^verbatim>\<open>
  let alt = result.response.text().trim();
  alt = alt.replace(/^['\"]+|['\"]+$/g, "");
  alt = alt.replace(/\s+/g, ' ').trim();
  if (alt.length > maxLength) {
    alt = alt.slice(0, maxLength - 3).trim() + '...';
  }
  return alt;
  \<close>
  \<open>normalizeAltText\<close> is the value of \<open>alt\<close> before the length test.
\<close>

definition normalizeAltText :: "jsstring \<Rightarrow> jsstring" where
  "normalizeAltText text =
     (let alt = trim text;
          alt = stripQuotes alt
      in trim (collapseWhitespace alt))"

definition sanitizeAltText :: "nat \<Rightarrow> jsstring \<Rightarrow> jsstring" where
  "sanitizeAltText maxLength text =
     (let alt = normalizeAltText text
      in if length alt > maxLength
         then trim (slice0 alt (int maxLength - 3)) @ js ''...''
         else alt)"

text \<open>
  The test of the catch block,
  \<^verbatim>\<open>error.status === 429 || /rate limit/i.test(error.message)\<close>.
\<close>

definition isRateLimitError :: "jsError \<Rightarrow> bool" where
  "isRateLimitError error \<longleftrightarrow>
     e_status error = Some 429 \<or> regexTestCI (js ''rate limit'') (e_message error)"

text \<open>
  What the function throws after the loop:
  \<^verbatim>\<open>
  if (lastError?.status === 429) {
    throw new Error("Rate limit exceeded - retry later");
  }
  throw new Error(`Failed to generate alt-text: ${lastError?.message || "Unknown error"}`);
  \<close>
\<close>

definition exhaustedError :: "jsError option \<Rightarrow> jsError" where
  "exhaustedError lastError =
     (if (case lastError of None \<Rightarrow> False | Some e \<Rightarrow> e_status e = Some 429)
      then newError (js ''Rate limit exceeded - retry later'')
      else newError (js ''Failed to generate alt-text: '' @
             (case lastError of
                None \<Rightarrow> js ''Unknown error''
              | Some e \<Rightarrow> if e_message e \<noteq> [] then e_message e else js ''Unknown error'')))"

text \<open>
  One call of the generator returns its result (the caption or the thrown error), the
  number of attempts it made and the delays it waited, in order. The image host and the
  provider are the function \<open>provider\<close>: \<open>provider attempt\<close> is what the fetch of the image
  followed by \<open>generateContent\<close> yields at that attempt, the text of the answer or the
  error thrown. The prompt only travels to the provider and is left out.
  \<^verbatim>\<open>
  for (let attempt = 0; attempt < maxRetries; attempt++) {
    try {
      ...
      return alt; // Success!
    } catch (error: any) {
      lastError = error;
      if (error.status === 429 || /rate limit/i.test(error.message)) {
        if (attempt < maxRetries - 1) {
          const delay = calculateBackoffDelay(attempt);
          await new Promise(resolve => setTimeout(resolve, delay));
          continue; // Retry
        }
      } else if (attempt < maxRetries - 1) {
        const delay = 1000 * (attempt + 1);
        await new Promise(resolve => setTimeout(resolve, delay));
        continue;
      }
    }
  }
  \<close>
\<close>

record generation =
  g_result :: "jsError + jsstring"
  g_attempts :: nat
  g_waits :: "nat list"

function attemptLoop ::
  "(nat \<Rightarrow> jsError + jsstring) \<Rightarrow> nat \<Rightarrow> int \<Rightarrow> nat \<Rightarrow> jsError option \<Rightarrow> nat list \<Rightarrow> generation" where
  "attemptLoop provider maxLength maxRetries attempt lastError waits =
     (if int attempt < maxRetries then
        (case provider attempt of
           Inr text \<Rightarrow>
             \<lparr>g_result = Inr (sanitizeAltText maxLength text), g_attempts = Suc attempt,
              g_waits = waits\<rparr>
         | Inl error \<Rightarrow>
             (if isRateLimitError error then
                (if int attempt < maxRetries - 1
                 then attemptLoop provider maxLength maxRetries (Suc attempt) (Some error)
                        (waits @ [calculateBackoffDelay attempt])
                 else attemptLoop provider maxLength maxRetries (Suc attempt) (Some error) waits)
              else if int attempt < maxRetries - 1
                 then attemptLoop provider maxLength maxRetries (Suc attempt) (Some error)
                        (waits @ [1000 * (attempt + 1)])
                 else attemptLoop provider maxLength maxRetries (Suc attempt) (Some error) waits))
      else \<lparr>g_result = Inl (exhaustedError lastError), g_attempts = attempt, g_waits = waits\<rparr>)"
  by pat_completeness auto
termination
  by (relation "measure (\<lambda>(provider, maxLength, maxRetries, attempt, lastError, waits).
                           nat (maxRetries - int attempt))") auto

text \<open>
  \<^verbatim>\<open>
  export const generateAltText = async (imageUrl, productTitle, productTags, shop,
                                        maxRetries: number = 3) => {
    const apiKey = process.env.GEMINI_API_KEY;
    if (!apiKey) {
      throw new Error("GEMINI_API_KEY is not set in the environment variables.");
    }
    const settings = await getSettings(shop);
    const maxLength = getMaxLength(settings.altTextLength);
    let lastError: any = null;
    for (...) { ... }
    ...
  };
  \<close>
  An absent and an empty key are both falsy.
\<close>

definition generateAltText ::
  "jsstring option \<Rightarrow> (nat \<Rightarrow> jsError + jsstring) \<Rightarrow> jsstring \<Rightarrow> int option \<Rightarrow> db
     \<Rightarrow> generation \<times> db" where
  "generateAltText apiKey provider shop maxRetriesArg d =
     (let maxRetries = (case maxRetriesArg of None \<Rightarrow> 3 | Some r \<Rightarrow> r)
      in if (case apiKey of None \<Rightarrow> True | Some k \<Rightarrow> k = [])
         then (\<lparr>g_result = Inl (newError
                   (js ''GEMINI_API_KEY is not set in the environment variables.'')),
                 g_attempts = 0, g_waits = []\<rparr>, d)
         else (case getSettings shop d of
                 (settings, d') \<Rightarrow>
                   (let maxLength = getMaxLength (set_altTextLength settings)
                    in (attemptLoop provider maxLength maxRetries 0 None [], d'))))"

section \<open>Scan orchestrator (the action of the processing route)\<close>

record mediaImage =
  m_id :: jsstring
  m_image :: "jsstring option"
  m_alt :: "jsstring option"

record productNode =
  p_id :: jsstring
  p_title :: jsstring
  p_handle :: jsstring
  p_tags :: "jsstring list"
  p_media :: "mediaImage list"

type_synonym userError = "jsstring list \<times> jsstring"

text \<open>
  What the scan meets outside the store: the provider's key, the catalog the platform
  returns, for the image at position \<open>k\<close> of the scan the provider's outcomes per attempt
  and the outcome of the write-back mutation (an error thrown by the call, or the
  \<open>userErrors\<close> of the answer, \<open>None\<close> when the answer has no such field), and the clock.
  It also says which writes of the image loop throw: for the image at position \<open>k\<close>,
  \<open>env_recordThrows k\<close> and \<open>env_enqueueThrows k\<close> are what the outcome-record write and
  the dead-letter write inside the \<open>try\<close> block throw, \<open>env_catchRecordThrows k\<close> and
  \<open>env_catchEnqueueThrows k\<close> what the two writes of the \<open>catch\<close> block throw; \<open>None\<close> is
  a write that succeeds. The settings lookup, the catalog query and the writes of the
  scan row itself are taken to succeed.
\<close>

record env =
  env_apiKey :: "jsstring option"
  env_products :: "productNode list"
  env_provider :: "nat \<Rightarrow> nat \<Rightarrow> jsError + jsstring"
  env_mutation :: "nat \<Rightarrow> jsError + userError list option"
  env_recordThrows :: "nat \<Rightarrow> jsError option"
  env_enqueueThrows :: "nat \<Rightarrow> jsError option"
  env_catchRecordThrows :: "nat \<Rightarrow> jsError option"
  env_catchEnqueueThrows :: "nat \<Rightarrow> jsError option"
  env_startTime :: int
  env_imageTime :: "nat \<Rightarrow> int"
  env_endTime :: int

record scanState =
  st_totalImages :: nat
  st_missingAltText :: nat
  st_updatedCount :: nat
  st_errorCount :: nat
  st_db :: db

text \<open>
  The test of the skip, \<^verbatim>\<open>currentAltText && currentAltText.trim() !== ""\<close>: \<open>null\<close> and
  the empty string are falsy.
\<close>

definition hasAltText :: "jsstring option \<Rightarrow> bool" where
  "hasAltText currentAltText \<longleftrightarrow>
     (case currentAltText of None \<Rightarrow> False | Some a \<Rightarrow> a \<noteq> [] \<and> trim a \<noteq> [])"

definition imageMedia :: "productNode \<Rightarrow> mediaImage list" where
  "imageMedia product = filter (\<lambda>m. m_image m \<noteq> None) (p_media product)"

text \<open>
  The catch block of the loop body, for the image at position \<open>k\<close>. An error thrown by
  one of its own writes is caught by nothing: it leaves the loop and the action
  (\<open>Inl\<close>).
  \<^verbatim>\<open>
  } catch (error: any) {
    errorCount++;
    await recordImageProcessing({ scanId: scanRecord.id, productId: product.id,
      productTitle: product.title, imageId: mediaId, imageUrl, oldAltText: currentAltText,
      newAltText: "", status: "failed", errorMessage: error.message });
    if (settings.autoRetry && isRetryableError(error)) {
      await addFailedJob({ shop: session.shop, productId: product.id,
        productTitle: product.title, imageId: mediaId, imageUrl,
        errorMessage: error.message, maxRetries: settings.maxRetries });
    }
  }
  \<close>
\<close>

definition catchBlock ::
  "env \<Rightarrow> nat \<Rightarrow> settings \<Rightarrow> jsstring \<Rightarrow> nat \<Rightarrow> productNode \<Rightarrow> mediaImage \<Rightarrow> int \<Rightarrow> jsError
     \<Rightarrow> scanState \<Rightarrow> jsError + scanState" where
  "catchBlock e k settings shop scanRecordId product mediaEdge now error st0 =
     (let st1 = st0\<lparr>st_errorCount := st_errorCount st0 + 1\<rparr>
      in case env_catchRecordThrows e k of
           Some thrown \<Rightarrow> Inl thrown
         | None \<Rightarrow>
             (let d1 = recordImageProcessing
                         \<lparr>ip_scanId = scanRecordId, ip_productId = p_id product,
                          ip_productTitle = p_title product, ip_imageId = m_id mediaEdge,
                          ip_imageUrl = the (m_image mediaEdge),
                          ip_oldAltText = m_alt mediaEdge, ip_newAltText = [],
                          ip_status = Failed,
                          ip_errorMessage = Some (e_message error)\<rparr> now (st_db st1)
              in if set_autoRetry settings \<and> isRetryableError error
                 then (case env_catchEnqueueThrows e k of
                         Some thrown \<Rightarrow> Inl thrown
                       | None \<Rightarrow>
                           Inr (st1\<lparr>st_db := snd (addFailedJob
                                  \<lparr>fj_shop = shop, fj_productId = p_id product,
                                   fj_productTitle = p_title product,
                                   fj_imageId = m_id mediaEdge,
                                   fj_imageUrl = the (m_image mediaEdge),
                                   fj_errorMessage = e_message error,
                                   fj_maxRetries = Some (set_maxRetries settings)\<rparr> now d1)\<rparr>))
                 else Inr (st1\<lparr>st_db := d1\<rparr>)))"

text \<open>
  The body of the loop over the images of one product. The position \<open>k\<close> of the image in
  the scan selects what the outside world answers for it. A write of the \<open>try\<close> block
  that throws is caught by the \<open>catch\<close> block, after the counter before it has been
  incremented. The fixed pause after a write-back changes no variable and no table and
  is left out.
  \<^verbatim>\<open>
  totalImages++;
  const mediaId = mediaEdge.node.id;
  const imageUrl = mediaEdge.node.image!.url;
  const currentAltText = mediaEdge.node.alt;
  if (!forceAll && currentAltText && currentAltText.trim() !== "") { continue; }
  missingAltText++;
  try {
    const newAltText = await generateAltText(imageUrl, product.title, product.tags,
                                             session.shop, settings.maxRetries);
    if (!newAltText) {
      errorCount++;
      await recordImageProcessing({ ..., newAltText: "", status: "failed",
                                    errorMessage: "No alt-text generated" });
      if (settings.autoRetry) {
        await addFailedJob({ ..., errorMessage: "No alt-text generated",
                             maxRetries: settings.maxRetries });
      }
      continue;
    }
    const updateResponse = await admin.graphql(...);
    const updateResult = await updateResponse.json();
    if (updateResult.data?.productUpdateMedia?.userErrors?.length > 0) {
      errorCount++;
    } else {
      updatedCount++;
      await recordImageProcessing({ ..., newAltText, status: "success" });
    }
    await new Promise(resolve => setTimeout(resolve, 2000));
  } catch (error: any) { ... }
  \<close>
\<close>

definition processImage ::
  "env \<Rightarrow> bool \<Rightarrow> settings \<Rightarrow> jsstring \<Rightarrow> nat \<Rightarrow> productNode \<Rightarrow> scanState \<Rightarrow> mediaImage
     \<Rightarrow> jsError + scanState" where
  "processImage e forceAll settings shop scanRecordId product st0 mediaEdge =
     (let k = st_totalImages st0;
          now = env_imageTime e k;
          st1 = st0\<lparr>st_totalImages := st_totalImages st0 + 1\<rparr>;
          currentAltText = m_alt mediaEdge
      in if \<not> forceAll \<and> hasAltText currentAltText then Inr st1
         else
           (let st2 = st1\<lparr>st_missingAltText := st_missingAltText st1 + 1\<rparr>
            in case generateAltText (env_apiKey e) (env_provider e k) shop
                      (Some (set_maxRetries settings)) (st_db st2) of
                 (g, d) \<Rightarrow>
                   (let st3 = st2\<lparr>st_db := d\<rparr>
                    in case g_result g of
                         Inl error \<Rightarrow>
                           catchBlock e k settings shop scanRecordId product mediaEdge now error
                             st3
                       | Inr newAltText \<Rightarrow>
                           if newAltText = [] then
                             (let st4 = st3\<lparr>st_errorCount := st_errorCount st3 + 1\<rparr>
                              in case env_recordThrows e k of
                                   Some thrown \<Rightarrow>
                                     catchBlock e k settings shop scanRecordId product mediaEdge
                                       now thrown st4
                                 | None \<Rightarrow>
                                     (let st5 = st4\<lparr>st_db := recordImageProcessing
                                            \<lparr>ip_scanId = scanRecordId,
                                             ip_productId = p_id product,
                                             ip_productTitle = p_title product,
                                             ip_imageId = m_id mediaEdge,
                                             ip_imageUrl = the (m_image mediaEdge),
                                             ip_oldAltText = currentAltText,
                                             ip_newAltText = [], ip_status = Failed,
                                             ip_errorMessage =
                                               Some (js ''No alt-text generated'')\<rparr>
                                            now (st_db st4)\<rparr>
                                      in if set_autoRetry settings
                                         then (case env_enqueueThrows e k of
                                                 Some thrown \<Rightarrow>
                                                   catchBlock e k settings shop scanRecordId
                                                     product mediaEdge now thrown st5
                                               | None \<Rightarrow>
                                                   Inr (st5\<lparr>st_db := snd (addFailedJob
                                                     \<lparr>fj_shop = shop,
                                                      fj_productId = p_id product,
                                                      fj_productTitle = p_title product,
                                                      fj_imageId = m_id mediaEdge,
                                                      fj_imageUrl = the (m_image mediaEdge),
                                                      fj_errorMessage =
                                                        js ''No alt-text generated'',
                                                      fj_maxRetries =
                                                        Some (set_maxRetries settings)\<rparr>
                                                     now (st_db st5))\<rparr>))
                                         else Inr st5))
                           else
                             (case env_mutation e k of
                                Inl error \<Rightarrow>
                                  catchBlock e k settings shop scanRecordId product mediaEdge
                                    now error st3
                              | Inr userErrors \<Rightarrow>
                                  if (case userErrors of None \<Rightarrow> False
                                      | Some ues \<Rightarrow> length ues > 0)
                                  then Inr (st3\<lparr>st_errorCount := st_errorCount st3 + 1\<rparr>)
                                  else
                                    (let st4 = st3\<lparr>st_updatedCount := st_updatedCount st3 + 1\<rparr>
                                     in case env_recordThrows e k of
                                          Some thrown \<Rightarrow>
                                            catchBlock e k settings shop scanRecordId product
                                              mediaEdge now thrown st4
                                        | None \<Rightarrow>
                                            Inr (st4\<lparr>st_db := recordImageProcessing
                                              \<lparr>ip_scanId = scanRecordId,
                                               ip_productId = p_id product,
                                               ip_productTitle = p_title product,
                                               ip_imageId = m_id mediaEdge,
                                               ip_imageUrl = the (m_image mediaEdge),
                                               ip_oldAltText = currentAltText,
                                               ip_newAltText = newAltText,
                                               ip_status = Success,
                                               ip_errorMessage = None\<rparr>
                                              now (st_db st4)\<rparr>))))))"

text \<open>
  The two loops. An error that leaves the body of the inner loop ends both.
  \<^verbatim>\<open>
  for (const [index, product] of products.entries()) {
    const imageMedia = product.media.edges.filter(m => m.node.image);
    if (imageMedia.length === 0) { continue; }
    for (const [imgIndex, mediaEdge] of imageMedia.entries()) { ... }
  }
  \<close>
\<close>

fun processImages ::
  "env \<Rightarrow> bool \<Rightarrow> settings \<Rightarrow> jsstring \<Rightarrow> nat \<Rightarrow> productNode \<Rightarrow> scanState \<Rightarrow> mediaImage list
     \<Rightarrow> jsError + scanState" where
  "processImages e forceAll settings shop scanRecordId product st [] = Inr st"
| "processImages e forceAll settings shop scanRecordId product st (mediaEdge # rest) =
     (case processImage e forceAll settings shop scanRecordId product st mediaEdge of
        Inl thrown \<Rightarrow> Inl thrown
      | Inr st' \<Rightarrow> processImages e forceAll settings shop scanRecordId product st' rest)"

definition processProduct ::
  "env \<Rightarrow> bool \<Rightarrow> settings \<Rightarrow> jsstring \<Rightarrow> nat \<Rightarrow> scanState \<Rightarrow> productNode
     \<Rightarrow> jsError + scanState" where
  "processProduct e forceAll settings shop scanRecordId st product =
     processImages e forceAll settings shop scanRecordId product st (imageMedia product)"

fun processProducts ::
  "env \<Rightarrow> bool \<Rightarrow> settings \<Rightarrow> jsstring \<Rightarrow> nat \<Rightarrow> scanState \<Rightarrow> productNode list
     \<Rightarrow> jsError + scanState" where
  "processProducts e forceAll settings shop scanRecordId st [] = Inr st"
| "processProducts e forceAll settings shop scanRecordId st (product # rest) =
     (case processProduct e forceAll settings shop scanRecordId st product of
        Inl thrown \<Rightarrow> Inl thrown
      | Inr st' \<Rightarrow> processProducts e forceAll settings shop scanRecordId st' rest)"

text \<open>
  \<^verbatim>\<open>
  export const action = async ({ request }) => {
    ...
    const settings = await getSettings(session.shop);
    const scanRecord = await createScanHistory(session.shop, forceAll);
    ...
    let totalImages = 0; let missingAltText = 0; let updatedCount = 0; let errorCount = 0;
    for (...) { ... }
    await completeScanHistory(scanRecord.id, {
      totalProducts: products.length, totalImages, imagesProcessed: updatedCount,
      imagesSkipped: totalImages - missingAltText, imagesFailed: errorCount });
    return { totalImages, missingAltText, updatedCount, errorCount };
  };
  \<close>
  The catalog is what the platform's product query returned, \<open>env_products\<close>. The
  result is the four counters with the final store, or the error that ended the action:
  one thrown out of the loop, which leaves the scan row \<open>running\<close>, or the rejection of
  the final update.
\<close>

datatype actionError = Thrown jsError | Rejected dbError

definition action :: "env \<Rightarrow> jsstring \<Rightarrow> bool \<Rightarrow> db \<Rightarrow> actionError + scanState" where
  "action e shop forceAll d0 =
     (case getSettings shop d0 of
        (settings, d1) \<Rightarrow>
          (case createScanHistory shop forceAll (env_startTime e) d1 of
             (scanRecord, d2) \<Rightarrow>
               (let products = env_products e
                in case processProducts e forceAll settings shop (s_id scanRecord)
                          \<lparr>st_totalImages = 0, st_missingAltText = 0, st_updatedCount = 0,
                           st_errorCount = 0, st_db = d2\<rparr> products of
                     Inl thrown \<Rightarrow> Inl (Thrown thrown)
                   | Inr st \<Rightarrow>
                       (case completeScanHistory (s_id scanRecord)
                               \<lparr>totalProducts = int (length products),
                                totalImages = int (st_totalImages st),
                                imagesProcessed = int (st_updatedCount st),
                                imagesSkipped =
                                  int (st_totalImages st) - int (st_missingAltText st),
                                imagesFailed = int (st_errorCount st)\<rparr>
                               (env_endTime e) (st_db st) of
                          Inl err \<Rightarrow> Inl (Rejected err)
                        | Inr (row, d3) \<Rightarrow> Inr (st\<lparr>st_db := d3\<rparr>)))))"

section \<open>Clean captions\<close>

text \<open>
  A caption is single-spaced when each whitespace character in it is the space character
  and is not followed by another whitespace character. A clean caption is one within the
  length ceiling, with no quote character and no whitespace at either end, and
  single-spaced.
\<close>

fun singleSpaced :: "jsstring \<Rightarrow> bool" where
  "singleSpaced [] = True"
| "singleSpaced [c] = (isWhiteSpace c \<longrightarrow> c = 0x20)"
| "singleSpaced (c # c' # cs) =
     ((isWhiteSpace c \<longrightarrow> c = 0x20 \<and> \<not> isWhiteSpace c') \<and> singleSpaced (c' # cs))"

definition cleanCaption :: "nat \<Rightarrow> jsstring \<Rightarrow> bool" where
  "cleanCaption maxLength s \<longleftrightarrow>
     length s \<le> maxLength
     \<and> (s \<noteq> [] \<longrightarrow> \<not> isQuote (hd s) \<and> \<not> isQuote (last s)
                    \<and> \<not> isWhiteSpace (hd s) \<and> \<not> isWhiteSpace (last s))
     \<and> singleSpaced s"

section \<open>What a run of the retry loop must look like\<close>

text \<open>
  The delay that is due after the failed attempt number \<open>attempt\<close>: the backoff policy
  for a rate-limiting failure, a second per attempt made so far for any other.
\<close>

definition specifiedWait :: "(nat \<Rightarrow> jsError + jsstring) \<Rightarrow> nat \<Rightarrow> nat" where
  "specifiedWait provider attempt =
     (case provider attempt of
        Inl error \<Rightarrow> if isRateLimitError error then calculateBackoffDelay attempt
                     else 1000 * (attempt + 1)
      | Inr answer \<Rightarrow> 0)"

text \<open>The error of the last of \<open>attempts\<close> attempts, if that attempt failed.\<close>

definition lastFailure :: "(nat \<Rightarrow> jsError + jsstring) \<Rightarrow> nat \<Rightarrow> jsError option" where
  "lastFailure provider attempts =
     (case provider (attempts - 1) of Inl error \<Rightarrow> Some error | Inr answer \<Rightarrow> None)"

text \<open>
  \<open>loopRun\<close> relates the state at the head of the loop to the outcome \<open>g\<close> of running it
  from there: how many attempts are made, which delays are added, that every attempt
  but the last one failed, and where the result comes from.
\<close>

definition loopRun ::
  "(nat \<Rightarrow> jsError + jsstring) \<Rightarrow> nat \<Rightarrow> int \<Rightarrow> nat \<Rightarrow> jsError option \<Rightarrow> nat list \<Rightarrow> generation
     \<Rightarrow> bool" where
  "loopRun provider maxLength maxRetries attempt lastError waits g \<longleftrightarrow>
     attempt \<le> g_attempts g
     \<and> (int attempt < maxRetries \<longrightarrow> attempt < g_attempts g \<and> int (g_attempts g) \<le> maxRetries)
     \<and> (\<not> int attempt < maxRetries \<longrightarrow> g_attempts g = attempt)
     \<and> g_waits g = waits @ map (specifiedWait provider) [attempt ..< g_attempts g - 1]
     \<and> (\<forall>i \<in> {attempt ..< g_attempts g - 1}. isl (provider i))
     \<and> (\<forall>caption. g_result g = Inr caption \<longrightarrow>
           attempt < g_attempts g
           \<and> (\<exists>answer. provider (g_attempts g - 1) = Inr answer
                  \<and> caption = sanitizeAltText maxLength answer))
     \<and> (\<forall>e. g_result g = Inl e \<longrightarrow>
           int (g_attempts g) \<ge> maxRetries
           \<and> (attempt < g_attempts g \<longrightarrow> isl (provider (g_attempts g - 1)))
           \<and> e = exhaustedError (if attempt < g_attempts g
                                  then lastFailure provider (g_attempts g)
                                  else lastError))"

section \<open>What a scan must count\<close>










section \<open>Stores that the operations can produce\<close>



text \<open>
  A caller that reschedules the same job again and again, each call with its own
  optional delay and clock reading; it stops at the first call that fails.
\<close>

fun scheduleRetries :: "nat \<Rightarrow> (int option \<times> int) list \<Rightarrow> db \<Rightarrow> dbError + db" where
  "scheduleRetries jobId [] d = Inr d"
| "scheduleRetries jobId ((delayMsArg, now) # calls) d =
     (case scheduleRetry jobId delayMsArg now d of
        Inl err \<Rightarrow> Inl err
      | Inr (job, d') \<Rightarrow> scheduleRetries jobId calls d')"

section \<open>Sample inputs\<close>

definition sampleJob :: failedJobData where
  "sampleJob =
     \<lparr>fj_shop = js ''shop'', fj_productId = js ''p1'', fj_productTitle = js ''Board'',
      fj_imageId = js ''m1'', fj_imageUrl = js ''u1'', fj_errorMessage = js ''timeout'',
      fj_maxRetries = Some 0\<rparr>"

definition sampleJobDb :: db where
  "sampleJobDb = snd (addFailedJob sampleJob 1000 emptyDb)"



definition sampleCaption :: jsstring where
  "sampleCaption =
     js ''Blue snowboard with a liquid drip design and winter pine forest landscape graphic''"

definition sampleCaption2 :: jsstring where
  "sampleCaption2 =
     js ''Blue snowboard with liquid drip design and a winter forest landscape graphic''"

definition sampleShortCaption :: jsstring where
  "sampleShortCaption = js ''Blue snowboard with liquid drip design''"

definition tooManyRequests :: jsError where
  "tooManyRequests =
     \<lparr>e_name = js ''Error'', e_status = Some 429, e_message = js ''Too Many Requests''\<rparr>"

definition rateLimitMessage :: jsError where
  "rateLimitMessage = newError (js ''Rate limit exceeded'')"

definition fetchFailed :: jsError where
  "fetchFailed = newError (js ''fetch failed'')"

definition imageA :: mediaImage where
  "imageA = \<lparr>m_id = js ''mA'', m_image = Some (js ''https://cdn/a.jpg''), m_alt = Some []\<rparr>"

definition imageB :: mediaImage where
  "imageB = \<lparr>m_id = js ''mB'', m_image = Some (js ''https://cdn/b.jpg''),
              m_alt = Some (js ''existing'')\<rparr>"

definition productA :: productNode where
  "productA = \<lparr>p_id = js ''pA'', p_title = js ''Board A'', p_handle = js ''board-a'',
                p_tags = [], p_media = [imageA]\<rparr>"

definition productB :: productNode where
  "productB = \<lparr>p_id = js ''pB'', p_title = js ''Board B'', p_handle = js ''board-b'',
                p_tags = [], p_media = [imageB]\<rparr>"

definition sampleEnv :: env where
  "sampleEnv =
     \<lparr>env_apiKey = Some (js ''key''), env_products = [productA, productB],
      env_provider = (\<lambda>k attempt. Inr (js ''Blue board'')),
      env_mutation = (\<lambda>k. Inr (Some [])),
      env_recordThrows = (\<lambda>k. None), env_enqueueThrows = (\<lambda>k. None),
      env_catchRecordThrows = (\<lambda>k. None), env_catchEnqueueThrows = (\<lambda>k. None),
      env_startTime = 100, env_imageTime = (\<lambda>k. 200), env_endTime = 300\<rparr>"

definition rejectingEnv :: env where
  "rejectingEnv = sampleEnv\<lparr>env_mutation := (\<lambda>k. Inr (Some [([js ''alt''], js ''Alt is invalid'')]))\<rparr>"

definition sampleState :: scanState where
  "sampleState =
     \<lparr>st_totalImages = 0, st_missingAltText = 0, st_updatedCount = 0, st_errorCount = 0,
      st_db = snd (getSettings (js ''shop'') emptyDb)\<rparr>"

definition imageW :: mediaImage where
  "imageW = \<lparr>m_id = js ''mW'', m_image = Some (js ''https://cdn/w.jpg''),
              m_alt = Some (js '' '')\<rparr>"

definition productW :: productNode where
  "productW = \<lparr>p_id = js ''pW'', p_title = js ''Board W'', p_handle = js ''board-w'',
                p_tags = [], p_media = [imageW]\<rparr>"


definition storeDown :: jsError where
  "storeDown = newError (js ''Operations timed out'')"

definition flakyEnv :: env where
  "flakyEnv = sampleEnv\<lparr>env_products := [productA], env_recordThrows := (\<lambda>k. Some storeDown)\<rparr>"

section \<open>Properties of the backoff policy\<close>

lemma calculateBackoffDelay_mono:
  assumes "m \<le> n"
  shows "calculateBackoffDelay m \<le> calculateBackoffDelay n"
proof -
  from assms have "(2::nat) ^ m \<le> 2 ^ n"
    by (simp add: power_increasing)
  then have "baseDelay * 2 ^ m \<le> baseDelay * 2 ^ n"
    by (rule mult_le_mono2)
  then show ?thesis
    unfolding calculateBackoffDelay_def by (rule min.mono) simp
qed

text \<open>
  Claim C4. The backoff policy is a total function of the attempt number \<open>n\<close> with
  \<open>delay n = min (2000 * 2 ^ n) 300000\<close>; it never decreases when the attempt number
  grows; \<open>delay 0 = 2000\<close>, \<open>delay 7 = 256000\<close> and \<open>delay 8 = 300000\<close> (clamped).
\<close>

theorem backoff_policy:
  "calculateBackoffDelay n = min (2000 * 2 ^ n) 300000
   \<and> (m \<le> n \<longrightarrow> calculateBackoffDelay m \<le> calculateBackoffDelay n)
   \<and> calculateBackoffDelay 0 = 2000
   \<and> calculateBackoffDelay 7 = 256000
   \<and> calculateBackoffDelay 8 = 300000"
proof -
  have eq: "calculateBackoffDelay k = min (2000 * 2 ^ k) 300000" for k
    by (simp add: calculateBackoffDelay_def baseDelay_def maxDelay_def)
  have "calculateBackoffDelay 0 = 2000"
    by (simp add: eq)
  moreover have "calculateBackoffDelay 7 = 256000"
    by (simp add: eq)
  moreover have "calculateBackoffDelay 8 = 300000"
    by (simp add: eq)
  ultimately show ?thesis
    using eq calculateBackoffDelay_mono by blast
qed

theorem backoff_policy_witness:
  "calculateBackoffDelay 9 = 300000
   \<and> (3::nat) \<le> 9 \<and> calculateBackoffDelay 3 = 16000
   \<and> calculateBackoffDelay 3 \<le> calculateBackoffDelay 9"
  using backoff_policy [of 9 3] backoff_policy [of 3 3] by simp

section \<open>Properties of the dead-letter queue\<close>

text \<open>
  Claim C10. Every call of the enqueue operation persists a job with \<open>retryCount = 0\<close>,
  status \<open>pending\<close> and \<open>nextRetryAt = now + 60s\<close>. Its \<open>maxRetries\<close> is the caller's value
  when that value is not zero; a caller's \<open>0\<close> (like an absent value) is replaced by the
  default \<open>3\<close>, so no job is enqueued with zero allowed retries.
\<close>

theorem addFailedJob_enqueues:
  "(case addFailedJob data now d of
      (row, d') \<Rightarrow>
        failedJob d' (j_id row) = Some row
        \<and> j_retryCount row = 0
        \<and> j_status row = Pending
        \<and> j_nextRetryAt row = Some (now + 60000)
        \<and> (\<forall>m. fj_maxRetries data = Some m \<and> m \<noteq> 0 \<longrightarrow> j_maxRetries row = m)
        \<and> (fj_maxRetries data = Some 0 \<longrightarrow> j_maxRetries row = 3)
        \<and> (fj_maxRetries data = None \<longrightarrow> j_maxRetries row = 3)
        \<and> j_maxRetries row \<noteq> 0)"
  by (simp add: addFailedJob_def Let_def split: option.split)

theorem addFailedJob_enqueues_witness:
  "fj_maxRetries (sampleJob\<lparr>fj_maxRetries := Some 5\<rparr>) = Some 5
   \<and> j_maxRetries (fst (addFailedJob (sampleJob\<lparr>fj_maxRetries := Some 5\<rparr>) 1000 emptyDb)) = 5
   \<and> fj_maxRetries sampleJob = Some 0
   \<and> j_maxRetries (fst (addFailedJob sampleJob 1000 emptyDb)) = 3
   \<and> fj_maxRetries (sampleJob\<lparr>fj_maxRetries := None\<rparr>) = None
   \<and> j_maxRetries (fst (addFailedJob (sampleJob\<lparr>fj_maxRetries := None\<rparr>) 1000 emptyDb)) = 3
   \<and> j_nextRetryAt (fst (addFailedJob sampleJob 1000 emptyDb)) = Some 61000"
  using
    addFailedJob_enqueues
      [where data = "sampleJob\<lparr>fj_maxRetries := Some 5\<rparr>" and now = 1000 and d = emptyDb]
    addFailedJob_enqueues
      [where data = "sampleJob\<lparr>fj_maxRetries := None\<rparr>" and now = 1000 and d = emptyDb]
    addFailedJob_enqueues [where data = sampleJob and now = 1000 and d = emptyDb]
  by (simp add: sampleJob_def split: prod.splits)

lemma newDate_abs:
  "newDate v = (if \<bar>v\<bar> \<le> 8640000000000000 then Some v else None)"
  unfolding newDate_def by (cases "0 \<le> v") auto

lemma scheduleRetry_step:
  assumes "failedJob d jobId = Some job"
    and "j_retryCount job + 1 < j_maxRetries job \<longrightarrow>
           \<bar>now + (case delayMsArg of None \<Rightarrow> 120000 | Some ms \<Rightarrow> ms)\<bar> \<le> 8640000000000000"
  shows "\<exists>job' d'. scheduleRetry jobId delayMsArg now d = Inr (job', d')
            \<and> failedJob d' jobId = Some job'
            \<and> j_retryCount job' = j_retryCount job + 1
            \<and> j_maxRetries job' = j_maxRetries job
            \<and> (j_status job' = FailedPermanent \<longleftrightarrow> j_retryCount job + 1 \<ge> j_maxRetries job)
            \<and> (j_status job' = Pending \<longleftrightarrow> j_retryCount job + 1 < j_maxRetries job)
            \<and> (j_retryCount job + 1 < j_maxRetries job \<longrightarrow>
                  j_nextRetryAt job' =
                    Some (now + (case delayMsArg of None \<Rightarrow> 120000 | Some ms \<Rightarrow> ms)))"
proof (cases "j_retryCount job + 1 < j_maxRetries job")
  case True
  with assms(2) have "newDate (now + (case delayMsArg of None \<Rightarrow> 120000 | Some ms \<Rightarrow> ms))
                        = Some (now + (case delayMsArg of None \<Rightarrow> 120000 | Some ms \<Rightarrow> ms))"
    by (simp add: newDate_abs)
  with True assms(1) show ?thesis
    by (simp add: scheduleRetry_def Let_def)
next
  case False
  with assms(1) show ?thesis
    by (simp add: scheduleRetry_def Let_def)
qed

lemma scheduleRetry_invalid_date:
  assumes "failedJob d jobId = Some job"
    and "j_retryCount job + 1 < j_maxRetries job"
    and "\<not> \<bar>now + (case delayMsArg of None \<Rightarrow> 120000 | Some ms \<Rightarrow> ms)\<bar> \<le> 8640000000000000"
  shows "scheduleRetry jobId delayMsArg now d = Inl InvalidDate"
proof -
  from assms(3) have "newDate (now + (case delayMsArg of None \<Rightarrow> 120000 | Some ms \<Rightarrow> ms)) = None"
    by (simp add: newDate_abs)
  with assms(1,2) show ?thesis
    by (simp add: scheduleRetry_def Let_def)
qed

lemma scheduleRetries_count:
  assumes "failedJob d jobId = Some job"
    and "\<forall>(delayMsArg, now) \<in> set calls.
           \<bar>now + (case delayMsArg of None \<Rightarrow> 120000 | Some ms \<Rightarrow> ms)\<bar> \<le> 8640000000000000"
  shows "\<exists>job' d'. scheduleRetries jobId calls d = Inr d'
            \<and> failedJob d' jobId = Some job'
            \<and> j_retryCount job' = j_retryCount job + int (length calls)
            \<and> j_maxRetries job' = j_maxRetries job
            \<and> (calls \<noteq> [] \<longrightarrow>
                 (j_status job' = FailedPermanent
                    \<longleftrightarrow> j_retryCount job + int (length calls) \<ge> j_maxRetries job))"
  using assms
proof (induction calls arbitrary: d job)
  case Nil
  then show ?case by simp
next
  case (Cons c calls)
  obtain delayMsArg now where c: "c = (delayMsArg, now)"
    by (cases c)
  with Cons.prems(2)
  have ok: "\<bar>now + (case delayMsArg of None \<Rightarrow> 120000 | Some ms \<Rightarrow> ms)\<bar> \<le> 8640000000000000"
    and rest_ok: "\<forall>(delayMsArg, now) \<in> set calls.
           \<bar>now + (case delayMsArg of None \<Rightarrow> 120000 | Some ms \<Rightarrow> ms)\<bar> \<le> 8640000000000000"
    by simp_all
  from scheduleRetry_step [OF Cons.prems(1), of now delayMsArg] ok
  obtain job1 d1 where step: "scheduleRetry jobId delayMsArg now d = Inr (job1, d1)"
    and job1: "failedJob d1 jobId = Some job1"
    and count1: "j_retryCount job1 = j_retryCount job + 1"
    and max1: "j_maxRetries job1 = j_maxRetries job"
    and status1: "j_status job1 = FailedPermanent \<longleftrightarrow> j_retryCount job + 1 \<ge> j_maxRetries job"
    by blast
  from Cons.IH [OF job1 rest_ok]
  obtain job' d' where rest: "scheduleRetries jobId calls d1 = Inr d'"
    and job': "failedJob d' jobId = Some job'"
    and count': "j_retryCount job' = j_retryCount job1 + int (length calls)"
    and max': "j_maxRetries job' = j_maxRetries job1"
    and status': "calls \<noteq> [] \<longrightarrow>
                 (j_status job' = FailedPermanent
                    \<longleftrightarrow> j_retryCount job1 + int (length calls) \<ge> j_maxRetries job1)"
    by blast
  have run: "scheduleRetries jobId (c # calls) d = Inr d'"
    by (simp add: c step rest)
  have status: "j_status job' = FailedPermanent
                  \<longleftrightarrow> j_retryCount job + int (length (c # calls)) \<ge> j_maxRetries job"
  proof (cases "calls = []")
    case True
    with rest job1 job' have "job' = job1" by simp
    with status1 True show ?thesis by simp
  next
    case False
    with status' count1 max1 show ?thesis by (simp add: algebra_simps)
  qed
  from run job' count' count1 max' max1 status show ?case
    by (simp add: algebra_simps)
qed

text \<open>
  Claim C3, as amended. Rescheduling a job that does not exist fails with the not-found
  error. For a job that exists, a call adds one to \<open>retryCount\<close> and makes the job
  \<open>failed_permanent\<close> exactly when the new count reaches or exceeds \<open>maxRetries\<close>, whatever
  the delay; otherwise, when \<open>now + delay\<close> is a valid date (at most 8.64e15 milliseconds
  from the epoch), the job goes back to \<open>pending\<close> with \<open>nextRetryAt = now + delay\<close>, the
  delay being the caller's or 120s, and when it is not a valid date the call fails and
  the job stays as it was. Hence after any number of calls with valid dates, one at
  least, the job is \<open>failed_permanent\<close> exactly when its count has reached \<open>maxRetries\<close>,
  and never before.
\<close>

theorem scheduleRetry_transition:
  "(failedJob d jobId = None \<longrightarrow> scheduleRetry jobId delayMsArg now d = Inl JobNotFound)
   \<and> (\<forall>job. failedJob d jobId = Some job
           \<and> (j_retryCount job + 1 < j_maxRetries job \<longrightarrow>
                \<bar>now + (case delayMsArg of None \<Rightarrow> 120000 | Some ms \<Rightarrow> ms)\<bar>
                  \<le> 8640000000000000) \<longrightarrow>
         (\<exists>job' d'. scheduleRetry jobId delayMsArg now d = Inr (job', d')
            \<and> failedJob d' jobId = Some job'
            \<and> j_retryCount job' = j_retryCount job + 1
            \<and> (j_status job' = FailedPermanent \<longleftrightarrow> j_retryCount job + 1 \<ge> j_maxRetries job)
            \<and> (j_status job' = Pending \<longleftrightarrow> j_retryCount job + 1 < j_maxRetries job)
            \<and> (j_retryCount job + 1 < j_maxRetries job \<longrightarrow>
                  j_nextRetryAt job' =
                    Some (now + (case delayMsArg of None \<Rightarrow> 120000 | Some ms \<Rightarrow> ms)))))
   \<and> (\<forall>job. failedJob d jobId = Some job
           \<and> j_retryCount job + 1 < j_maxRetries job
           \<and> \<not> \<bar>now + (case delayMsArg of None \<Rightarrow> 120000 | Some ms \<Rightarrow> ms)\<bar>
                  \<le> 8640000000000000 \<longrightarrow>
         scheduleRetry jobId delayMsArg now d = Inl InvalidDate)
   \<and> (\<forall>job. failedJob d jobId = Some job \<and> calls \<noteq> []
           \<and> (\<forall>(delayMsArg, now) \<in> set calls.
                 \<bar>now + (case delayMsArg of None \<Rightarrow> 120000 | Some ms \<Rightarrow> ms)\<bar>
                   \<le> 8640000000000000) \<longrightarrow>
         (\<exists>job' d'. scheduleRetries jobId calls d = Inr d'
            \<and> failedJob d' jobId = Some job'
            \<and> j_retryCount job' = j_retryCount job + int (length calls)
            \<and> (j_status job' = FailedPermanent
                  \<longleftrightarrow> j_retryCount job + int (length calls) \<ge> j_maxRetries job)))"
proof (intro conjI allI impI)
  assume "failedJob d jobId = None"
  then show "scheduleRetry jobId delayMsArg now d = Inl JobNotFound"
    by (simp add: scheduleRetry_def)
next
  fix job
  assume a: "failedJob d jobId = Some job
           \<and> (j_retryCount job + 1 < j_maxRetries job \<longrightarrow>
                \<bar>now + (case delayMsArg of None \<Rightarrow> 120000 | Some ms \<Rightarrow> ms)\<bar>
                  \<le> 8640000000000000)"
  then have job: "failedJob d jobId = Some job"
    and ok: "j_retryCount job + 1 < j_maxRetries job \<longrightarrow>
                \<bar>now + (case delayMsArg of None \<Rightarrow> 120000 | Some ms \<Rightarrow> ms)\<bar>
                  \<le> 8640000000000000"
    by simp_all
  from scheduleRetry_step [OF job ok]
  show "\<exists>job' d'. scheduleRetry jobId delayMsArg now d = Inr (job', d')
            \<and> failedJob d' jobId = Some job'
            \<and> j_retryCount job' = j_retryCount job + 1
            \<and> (j_status job' = FailedPermanent \<longleftrightarrow> j_retryCount job + 1 \<ge> j_maxRetries job)
            \<and> (j_status job' = Pending \<longleftrightarrow> j_retryCount job + 1 < j_maxRetries job)
            \<and> (j_retryCount job + 1 < j_maxRetries job \<longrightarrow>
                  j_nextRetryAt job' =
                    Some (now + (case delayMsArg of None \<Rightarrow> 120000 | Some ms \<Rightarrow> ms)))"
    by blast
next
  fix job
  assume "failedJob d jobId = Some job
           \<and> j_retryCount job + 1 < j_maxRetries job
           \<and> \<not> \<bar>now + (case delayMsArg of None \<Rightarrow> 120000 | Some ms \<Rightarrow> ms)\<bar>
                  \<le> 8640000000000000"
  then show "scheduleRetry jobId delayMsArg now d = Inl InvalidDate"
    using scheduleRetry_invalid_date [of d jobId job now delayMsArg] by blast
next
  fix job
  assume a: "failedJob d jobId = Some job \<and> calls \<noteq> []
           \<and> (\<forall>(delayMsArg, now) \<in> set calls.
                 \<bar>now + (case delayMsArg of None \<Rightarrow> 120000 | Some ms \<Rightarrow> ms)\<bar>
                   \<le> 8640000000000000)"
  then have job: "failedJob d jobId = Some job" and calls: "calls \<noteq> []"
    and ok: "\<forall>(delayMsArg, now) \<in> set calls.
                 \<bar>now + (case delayMsArg of None \<Rightarrow> 120000 | Some ms \<Rightarrow> ms)\<bar>
                   \<le> 8640000000000000"
    by simp_all
  from scheduleRetries_count [OF job ok] calls
  show "\<exists>job' d'. scheduleRetries jobId calls d = Inr d'
            \<and> failedJob d' jobId = Some job'
            \<and> j_retryCount job' = j_retryCount job + int (length calls)
            \<and> (j_status job' = FailedPermanent
                  \<longleftrightarrow> j_retryCount job + int (length calls) \<ge> j_maxRetries job)"
    by blast
qed

theorem scheduleRetry_transition_witness:
  "failedJob sampleJobDb 0 = Some (fst (addFailedJob sampleJob 1000 emptyDb))
   \<and> failedJob sampleJobDb 7 = None
   \<and> scheduleRetry 7 None 5000 sampleJobDb = Inl JobNotFound
   \<and> (\<exists>job' d'. scheduleRetry 0 None 5000 sampleJobDb = Inr (job', d')
         \<and> j_retryCount job' = 1 \<and> j_status job' = Pending
         \<and> j_nextRetryAt job' = Some 125000)
   \<and> scheduleRetry 0 (Some 10000000000000000) 5000 sampleJobDb = Inl InvalidDate
   \<and> (\<exists>job' d'. scheduleRetries 0 [(None, 5000), (Some 10, 6000), (None, 7000)] sampleJobDb = Inr d'
         \<and> failedJob d' 0 = Some job' \<and> j_retryCount job' = 3
         \<and> j_status job' = FailedPermanent)"
proof -
  let ?job = "fst (addFailedJob sampleJob 1000 emptyDb)"
  have a: "failedJob sampleJobDb 0 = Some ?job"
    by (simp add: sampleJobDb_def addFailedJob_def emptyDb_def Let_def)
  have b: "failedJob sampleJobDb 7 = None"
    by (simp add: sampleJobDb_def addFailedJob_def emptyDb_def Let_def)
  have c: "j_retryCount ?job = 0" "j_maxRetries ?job = 3"
    by (simp_all add: addFailedJob_def sampleJob_def Let_def)
  have step: "\<exists>job' d'. scheduleRetry 0 None 5000 sampleJobDb = Inr (job', d')
         \<and> j_retryCount job' = 1 \<and> j_status job' = Pending
         \<and> j_nextRetryAt job' = Some 125000"
    using a c
      scheduleRetry_transition
        [where d = sampleJobDb and jobId = 0 and delayMsArg = None and now = 5000]
    by fastforce
  have far: "scheduleRetry 0 (Some 10000000000000000) 5000 sampleJobDb = Inl InvalidDate"
    using a c
      scheduleRetry_transition
        [where d = sampleJobDb and jobId = 0 and delayMsArg = "Some 10000000000000000"
           and now = 5000]
    by simp
  have three: "\<exists>job' d'.
         scheduleRetries 0 [(None, 5000), (Some 10, 6000), (None, 7000)] sampleJobDb = Inr d'
         \<and> failedJob d' 0 = Some job' \<and> j_retryCount job' = 3
         \<and> j_status job' = FailedPermanent"
    using a c
      scheduleRetry_transition
        [where d = sampleJobDb and jobId = 0
           and calls = "[(None, 5000), (Some 10, 6000), (None, 7000)]"]
    by fastforce
  have missing: "scheduleRetry 7 None 5000 sampleJobDb = Inl JobNotFound"
    using b
      scheduleRetry_transition
        [where d = sampleJobDb and jobId = 7 and delayMsArg = None and now = 5000]
    by simp
  from a b missing step far three show ?thesis
    by blast
qed

text \<open>
  The claim as first stated promises the transition to \<open>pending\<close> for every delay. For
  the sample job (count 0, ceiling 3) and a delay of 1e16 milliseconds the date is not
  valid: the call fails and the job is not rescheduled.
\<close>

theorem scheduleRetry_transition_counterexample:
  "failedJob sampleJobDb 0 = Some (fst (addFailedJob sampleJob 1000 emptyDb))
   \<and> j_retryCount (fst (addFailedJob sampleJob 1000 emptyDb)) + 1
       < j_maxRetries (fst (addFailedJob sampleJob 1000 emptyDb))
   \<and> scheduleRetry 0 (Some 10000000000000000) 5000 sampleJobDb = Inl InvalidDate"
  by (simp add: sampleJobDb_def addFailedJob_def emptyDb_def sampleJob_def Let_def
        scheduleRetry_def newDate_def)

section \<open>Properties of the scan history\<close>








section \<open>Properties of the caption sanitation\<close>

lemma trimEnd_id: "s = [] \<or> \<not> isWhiteSpace (last s) \<Longrightarrow> trimEnd s = s"
  by (cases s rule: rev_cases) (auto simp: trimEnd_def)

lemma trimStart_id: "s = [] \<or> \<not> isWhiteSpace (hd s) \<Longrightarrow> trimStart s = s"
  by (cases s) (auto simp: trimStart_def)

lemma trim_id: "s = [] \<or> (\<not> isWhiteSpace (hd s) \<and> \<not> isWhiteSpace (last s)) \<Longrightarrow> trim s = s"
  by (auto simp: trim_def trimStart_id trimEnd_id)

lemma stripQuotes_id: "s = [] \<or> (\<not> isQuote (hd s) \<and> \<not> isQuote (last s)) \<Longrightarrow> stripQuotes s = s"
proof (cases s rule: rev_cases)
  case Nil
  then show ?thesis by (simp add: stripQuotes_def)
next
  case (snoc ys y)
  assume "s = [] \<or> (\<not> isQuote (hd s) \<and> \<not> isQuote (last s))"
  with snoc have h: "\<not> isQuote (hd s)" and l: "\<not> isQuote y" by auto
  from h have "dropWhile isQuote s = s"
    by (simp add: dropWhile_eq_self_iff)
  with l snoc show ?thesis
    by (simp add: stripQuotes_def)
qed

lemma collapseWhitespace_id: "singleSpaced s \<Longrightarrow> collapseWhitespace s = s"
  by (induction s rule: singleSpaced.induct) auto

lemma normalizeAltText_clean:
  assumes "cleanCaption maxLength s"
  shows "normalizeAltText s = s"
  using assms
  by (auto simp: normalizeAltText_def cleanCaption_def Let_def trim_id stripQuotes_id collapseWhitespace_id)

text \<open>
  Claim C9. Sanitation leaves a clean caption unchanged: a caption within the length
  ceiling, with no quote character and no whitespace at its start or its end, and whose
  whitespace is single spaces only, is returned as it is.
\<close>

theorem sanitize_clean_unchanged:
  assumes "cleanCaption maxLength s"
  shows "sanitizeAltText maxLength s = s"
proof -
  from assms have "length s \<le> maxLength"
    by (simp add: cleanCaption_def)
  with normalizeAltText_clean [OF assms] show ?thesis
    by (simp add: sanitizeAltText_def)
qed

theorem sanitize_clean_unchanged_witness:
  "cleanCaption (getMaxLength Short) sampleShortCaption
   \<and> sanitizeAltText (getMaxLength Short) sampleShortCaption = sampleShortCaption"
proof -
  have "cleanCaption (getMaxLength Short) sampleShortCaption"
    by (simp add: cleanCaption_def sampleShortCaption_def js_def isWhiteSpace_def isQuote_def)
  then show ?thesis
    using sanitize_clean_unchanged [of "getMaxLength Short" sampleShortCaption] by simp
qed

lemma singleSpaced_Cons:
  "singleSpaced (c # s) \<longleftrightarrow>
     (isWhiteSpace c \<longrightarrow> c = 0x20 \<and> (s \<noteq> [] \<longrightarrow> \<not> isWhiteSpace (hd s))) \<and> singleSpaced s"
  by (cases s) auto

lemma singleSpaced_append:
  "singleSpaced (xs @ ys) \<Longrightarrow> singleSpaced xs \<and> singleSpaced ys"
proof (induction xs)
  case Nil
  then show ?case by simp
next
  case (Cons x xs)
  then show ?case
    by (cases xs) (auto simp: singleSpaced_Cons)
qed

lemma singleSpaced_take: "singleSpaced s \<Longrightarrow> singleSpaced (take k s)"
  using singleSpaced_append [of "take k s" "drop k s"] by simp

lemma singleSpaced_dropWhile: "singleSpaced s \<Longrightarrow> singleSpaced (dropWhile P s)"
  using singleSpaced_append [of "takeWhile P s" "dropWhile P s"] by simp

lemma trimEnd_prefix: "trimEnd s = take (length (trimEnd s)) s"
proof -
  have "s = rev (dropWhile isWhiteSpace (rev s)) @ rev (takeWhile isWhiteSpace (rev s))"
    by (metis rev_append rev_rev_ident takeWhile_dropWhile_id)
  then have "s = trimEnd s @ rev (takeWhile isWhiteSpace (rev s))"
    by (simp add: trimEnd_def)
  then show ?thesis
    by (metis append_eq_conv_conj)
qed

lemma singleSpaced_trimEnd: "singleSpaced s \<Longrightarrow> singleSpaced (trimEnd s)"
  using trimEnd_prefix [of s] singleSpaced_take [of s "length (trimEnd s)"] by simp

lemma singleSpaced_trim: "singleSpaced s \<Longrightarrow> singleSpaced (trim s)"
  by (simp add: trim_def trimStart_def singleSpaced_trimEnd singleSpaced_dropWhile)

lemma hd_collapseWhitespace:
  "s \<noteq> [] \<Longrightarrow> \<not> isWhiteSpace (hd s) \<Longrightarrow>
     collapseWhitespace s \<noteq> [] \<and> hd (collapseWhitespace s) = hd s"
  by (cases s) auto

lemma singleSpaced_collapseWhitespace: "singleSpaced (collapseWhitespace s)"
proof (induction s rule: collapseWhitespace.induct)
  case 1
  show ?case by simp
next
  case (2 c cs)
  show ?case
  proof (cases "isWhiteSpace c")
    case True
    let ?rest = "dropWhile isWhiteSpace cs"
    from True 2 have ih: "singleSpaced (collapseWhitespace ?rest)" by simp
    have "collapseWhitespace ?rest \<noteq> [] \<longrightarrow> \<not> isWhiteSpace (hd (collapseWhitespace ?rest))"
    proof
      assume ne: "collapseWhitespace ?rest \<noteq> []"
      then have "?rest \<noteq> []" by (metis collapseWhitespace.simps(1))
      then have "\<not> isWhiteSpace (hd ?rest)" by (rule hd_dropWhile)
      with \<open>?rest \<noteq> []\<close> show "\<not> isWhiteSpace (hd (collapseWhitespace ?rest))"
        by (simp add: hd_collapseWhitespace)
    qed
    with True ih show ?thesis
      by (simp add: singleSpaced_Cons)
  next
    case False
    with 2 show ?thesis
      by (simp add: singleSpaced_Cons)
  qed
qed

lemma trim_ends:
  "trim s = [] \<or> (\<not> isWhiteSpace (hd (trim s)) \<and> \<not> isWhiteSpace (last (trim s)))"
proof (cases "trim s = []")
  case True
  then show ?thesis by simp
next
  case False
  let ?t = "trimStart s"
  from False have t: "?t \<noteq> []"
    by (auto simp: trim_def trimEnd_def)
  then have hd_t: "\<not> isWhiteSpace (hd ?t)"
    unfolding trimStart_def by (rule hd_dropWhile)
  from False have "dropWhile isWhiteSpace (rev ?t) \<noteq> []"
    by (simp add: trim_def trimEnd_def)
  then have "\<not> isWhiteSpace (hd (dropWhile isWhiteSpace (rev ?t)))"
    by (rule hd_dropWhile)
  with False have last_ok: "\<not> isWhiteSpace (last (trim s))"
    by (simp add: trim_def trimEnd_def last_rev)
  have "trim s = take (length (trim s)) ?t"
    using trimEnd_prefix [of ?t] by (simp add: trim_def)
  with False have "hd (trim s) = hd ?t"
    by (metis hd_take length_greater_0_conv)
  with hd_t last_ok show ?thesis by simp
qed

lemma normalizeAltText_ends:
  "normalizeAltText text = [] \<or>
     (\<not> isWhiteSpace (hd (normalizeAltText text)) \<and> \<not> isWhiteSpace (last (normalizeAltText text)))"
  unfolding normalizeAltText_def Let_def by (rule trim_ends)

lemma singleSpaced_normalizeAltText: "singleSpaced (normalizeAltText text)"
  unfolding normalizeAltText_def Let_def
  by (rule singleSpaced_trim) (rule singleSpaced_collapseWhitespace)

lemma js_dots_length: "length (js ''...'') = 3"
  by (simp add: js_def)

lemma trim_prefix_of_normalized:
  assumes ss: "singleSpaced p" and ne: "p \<noteq> []" and h: "\<not> isWhiteSpace (hd p)"
  shows "trim p = (if isWhiteSpace (last p) then butlast p else p)"
proof (cases "isWhiteSpace (last p)")
  case False
  with h show ?thesis by (simp add: trim_id)
next
  case True
  from ne obtain q l where p: "p = q @ [l]"
    by (cases p rule: rev_cases) auto
  with True have l: "isWhiteSpace l" by simp
  from h l p have q: "q \<noteq> []" by auto
  then obtain q' a where q': "q = q' @ [a]"
    by (cases q rule: rev_cases) auto
  from ss p q' have "singleSpaced (q' @ [a, l])" by simp
  then have "singleSpaced [a, l]"
    using singleSpaced_append by blast
  with l have a: "\<not> isWhiteSpace a" by auto
  from h p q have "\<not> isWhiteSpace (hd q)" by simp
  with a q' have "trim q = q"
    by (simp add: trim_id)
  moreover from h p have "trimStart p = p" and "trimStart q = q"
    using q by (simp_all add: trimStart_id)
  ultimately have "trim p = q"
    using l p by (simp add: trim_def trimEnd_def)
  with True p show ?thesis by simp
qed

lemma sanitize_truncates:
  assumes long: "length (normalizeAltText text) > maxLength" and big: "4 \<le> maxLength"
  shows "sanitizeAltText maxLength text =
           (if isWhiteSpace (normalizeAltText text ! (maxLength - 4))
            then take (maxLength - 4) (normalizeAltText text)
            else take (maxLength - 3) (normalizeAltText text)) @ js ''...''"
proof -
  let ?n = "normalizeAltText text"
  let ?p = "take (maxLength - 3) ?n"
  from long have n_ne: "?n \<noteq> []" by auto
  with normalizeAltText_ends [of "text"] have hd_n: "\<not> isWhiteSpace (hd ?n)" by simp
  from long big have len_p: "length ?p = maxLength - 3" and p_ne: "?p \<noteq> []"
    by auto
  from big n_ne have hd_p: "hd ?p = hd ?n"
    by (cases ?n) (auto simp: take_Cons')
  have ss: "singleSpaced ?p"
    by (rule singleSpaced_take) (rule singleSpaced_normalizeAltText)
  from long big have last_p: "last ?p = ?n ! (maxLength - 4)"
    using p_ne len_p by (simp add: last_conv_nth)
  have "butlast ?p = take (maxLength - 4) ?n"
    using long big by (simp add: butlast_take)
  with trim_prefix_of_normalized [OF ss p_ne] hd_p hd_n last_p
  have "trim ?p = (if isWhiteSpace (?n ! (maxLength - 4)) then take (maxLength - 4) ?n else ?p)"
    by simp
  moreover from big have "slice0 ?n (int maxLength - 3) = ?p"
    by (simp add: slice0_def nat_diff_distrib')
  ultimately show ?thesis
    using long by (simp add: sanitizeAltText_def Let_def)
qed

text \<open>
  Claim C1, as amended. Let \<open>C\<close> be the configured ceiling (60, 100 or 125) and let the
  normalized caption (quotes stripped, whitespace normalized) be longer than \<open>C\<close>. The
  sanitized result is the first \<open>C - 3\<close> characters of the normalized caption with
  trailing whitespace trimmed, followed by \<open>...\<close>; it ends in \<open>...\<close> and is never longer
  than \<open>C\<close>. When the character at index \<open>C - 4\<close> of the normalized caption is not
  whitespace, the result has length exactly \<open>C\<close> and its first \<open>C - 3\<close> characters are
  those of the normalized caption. When that character is a space, the result has length
  \<open>C - 1\<close> and its first \<open>C - 4\<close> characters are those of the normalized caption.
\<close>

theorem caption_truncation:
  assumes "C = getMaxLength len"
    and "n = normalizeAltText text"
    and "r = sanitizeAltText C text"
    and "length n > C"
  shows "r = trim (take (C - 3) n) @ js ''...''
         \<and> length r \<le> C
         \<and> drop (length r - 3) r = js ''...''
         \<and> (\<not> isWhiteSpace (n ! (C - 4)) \<longrightarrow> length r = C \<and> take (C - 3) r = take (C - 3) n)
         \<and> (isWhiteSpace (n ! (C - 4)) \<longrightarrow> length r = C - 1 \<and> take (C - 4) r = take (C - 4) n)"
proof -
  from assms(1) have big: "4 \<le> C" "C - 4 < C - 3"
    by (cases len; simp)+
  from assms(2,4) have long: "length (normalizeAltText text) > C" by simp
  from big assms(4) have slice: "slice0 n (int C - 3) = take (C - 3) n"
    by (simp add: slice0_def nat_diff_distrib')
  with assms(2,3,4) have r1: "r = trim (take (C - 3) n) @ js ''...''"
    by (simp add: sanitizeAltText_def Let_def)
  from sanitize_truncates [OF long big(1)] assms(2,3)
  have r2: "r = (if isWhiteSpace (n ! (C - 4)) then take (C - 4) n else take (C - 3) n) @ js ''...''"
    by simp
  from r2 assms(4) big have len: "length r = (if isWhiteSpace (n ! (C - 4)) then C - 1 else C)"
    by (simp add: js_dots_length)
  from r2 assms(4) big have dots: "drop (length r - 3) r = js ''...''"
    by (simp add: js_dots_length)
  from r2 assms(4) big
  have keep: "\<not> isWhiteSpace (n ! (C - 4)) \<longrightarrow> take (C - 3) r = take (C - 3) n"
    by simp
  from r2 assms(4) big
  have cut: "isWhiteSpace (n ! (C - 4)) \<longrightarrow> take (C - 4) r = take (C - 4) n"
    by simp
  show ?thesis
  proof (intro conjI)
    show "r = trim (take (C - 3) n) @ js ''...''" by (rule r1)
    show "length r \<le> C" using len by simp
    show "drop (length r - 3) r = js ''...''" by (rule dots)
    show "\<not> isWhiteSpace (n ! (C - 4)) \<longrightarrow> length r = C \<and> take (C - 3) r = take (C - 3) n"
      using len keep by simp
    show "isWhiteSpace (n ! (C - 4)) \<longrightarrow> length r = C - 1 \<and> take (C - 4) r = take (C - 4) n"
      using len cut by simp
  qed
qed

lemma sampleCaption_length: "length sampleCaption = 81"
  by (simp add: sampleCaption_def js_def)

lemma singleSpaced_sample: "singleSpaced sampleCaption"
  by (simp add: sampleCaption_def js_def isWhiteSpace_def)

lemma cleanCaption_sample: "cleanCaption 81 sampleCaption"
  by (simp add: cleanCaption_def sampleCaption_length singleSpaced_sample)
     (simp add: sampleCaption_def js_def isWhiteSpace_def isQuote_def)

lemma normalize_sample: "normalizeAltText sampleCaption = sampleCaption"
  using cleanCaption_sample by (rule normalizeAltText_clean)

lemma sanitize_sample:
  "sanitizeAltText 60 sampleCaption = js ''Blue snowboard with a liquid drip design and winter pine...''"
  by (simp add: sanitizeAltText_def normalize_sample sampleCaption_length slice0_def)
     (simp add: sampleCaption_def js_def trim_def trimStart_def trimEnd_def isWhiteSpace_def)

lemma sampleCaption2_length: "length sampleCaption2 = 76"
  by (simp add: sampleCaption2_def js_def)

lemma normalize_sample2: "normalizeAltText sampleCaption2 = sampleCaption2"
proof -
  have "cleanCaption 76 sampleCaption2"
    by (simp add: cleanCaption_def sampleCaption2_def js_def isWhiteSpace_def isQuote_def)
  then show ?thesis by (rule normalizeAltText_clean)
qed

theorem caption_truncation_witness:
  "length (normalizeAltText sampleCaption) > getMaxLength Short
   \<and> isWhiteSpace (normalizeAltText sampleCaption ! (getMaxLength Short - 4))
   \<and> length (sanitizeAltText (getMaxLength Short) sampleCaption) = getMaxLength Short - 1
   \<and> length (normalizeAltText sampleCaption2) > getMaxLength Short
   \<and> \<not> isWhiteSpace (normalizeAltText sampleCaption2 ! (getMaxLength Short - 4))
   \<and> length (sanitizeAltText (getMaxLength Short) sampleCaption2) = getMaxLength Short
   \<and> take 57 (sanitizeAltText (getMaxLength Short) sampleCaption2) = take 57 sampleCaption2"
proof -
  have a: "length (normalizeAltText sampleCaption) > getMaxLength Short"
    by (simp add: normalize_sample sampleCaption_length)
  have b: "isWhiteSpace (normalizeAltText sampleCaption ! (getMaxLength Short - 4))"
    by (simp add: normalize_sample) (simp add: sampleCaption_def js_def isWhiteSpace_def)
  have c: "length (normalizeAltText sampleCaption2) > getMaxLength Short"
    by (simp add: normalize_sample2 sampleCaption2_length)
  have d: "\<not> isWhiteSpace (normalizeAltText sampleCaption2 ! (getMaxLength Short - 4))"
    by (simp add: normalize_sample2) (simp add: sampleCaption2_def js_def isWhiteSpace_def)
  from a b
    caption_truncation [OF refl refl refl a]
  have one: "length (sanitizeAltText (getMaxLength Short) sampleCaption) = getMaxLength Short - 1"
    by blast
  from c d
    caption_truncation [OF refl refl refl c]
  have two: "length (sanitizeAltText (getMaxLength Short) sampleCaption2) = getMaxLength Short
      \<and> take (getMaxLength Short - 3) (sanitizeAltText (getMaxLength Short) sampleCaption2)
          = take (getMaxLength Short - 3) (normalizeAltText sampleCaption2)"
    by blast
  from a b c d one two show ?thesis
    by (simp add: normalize_sample2)
qed

text \<open>
  The claim as first stated (length exactly \<open>C\<close>) fails for the caption below, whose
  normalized form has a space at index 56: the result is
  \<open>Blue snowboard with a liquid drip design and winter pine...\<close>, 59 characters long.
\<close>

theorem caption_truncation_counterexample:
  "length (normalizeAltText sampleCaption) > getMaxLength Short
   \<and> length (sanitizeAltText (getMaxLength Short) sampleCaption) = 59
   \<and> getMaxLength Short = 60"
  by (simp add: normalize_sample sampleCaption_length sanitize_sample) (simp add: js_def)

section \<open>Properties of the caption generator\<close>

declare attemptLoop.simps [simp del]

lemma attemptLoop_stop:
  "\<not> int attempt < maxRetries \<Longrightarrow>
     attemptLoop provider maxLength maxRetries attempt lastError waits =
       \<lparr>g_result = Inl (exhaustedError lastError), g_attempts = attempt, g_waits = waits\<rparr>"
  by (subst attemptLoop.simps) simp

lemma attemptLoop_success:
  "int attempt < maxRetries \<Longrightarrow> provider attempt = Inr text \<Longrightarrow>
     attemptLoop provider maxLength maxRetries attempt lastError waits =
       \<lparr>g_result = Inr (sanitizeAltText maxLength text), g_attempts = Suc attempt,
        g_waits = waits\<rparr>"
  by (subst attemptLoop.simps) simp

lemma attemptLoop_failure:
  "int attempt < maxRetries \<Longrightarrow> provider attempt = Inl error \<Longrightarrow>
     attemptLoop provider maxLength maxRetries attempt lastError waits =
       attemptLoop provider maxLength maxRetries (Suc attempt) (Some error)
         (if int attempt < maxRetries - 1 then waits @ [specifiedWait provider attempt]
          else waits)"
  by (subst attemptLoop.simps) (simp add: specifiedWait_def)

lemma attemptLoop_loopRun:
  "loopRun provider maxLength maxRetries attempt lastError waits
     (attemptLoop provider maxLength maxRetries attempt lastError waits)"
proof (induction "nat (maxRetries - int attempt)" arbitrary: attempt lastError waits)
  case 0
  then have "\<not> int attempt < maxRetries" by simp
  then show ?case
    by (auto simp: attemptLoop_stop loopRun_def)
next
  case (Suc k)
  then have lt: "int attempt < maxRetries" by linarith
  show ?case
  proof (cases "provider attempt")
    case (Inr answer)
    with lt show ?thesis
      by (auto simp: attemptLoop_success loopRun_def)
  next
    case (Inl error)
    from Suc.hyps(2) have k: "k = nat (maxRetries - int (Suc attempt))" by simp
    show ?thesis
    proof (cases "int attempt < maxRetries - 1")
      case True
      define g where "g = attemptLoop provider maxLength maxRetries (Suc attempt) (Some error)
                            (waits @ [specifiedWait provider attempt])"
      from lt Inl True
      have eq: "attemptLoop provider maxLength maxRetries attempt lastError waits = g"
        by (simp add: attemptLoop_failure g_def)
      from Suc.hyps(1) [OF k]
      have ih: "loopRun provider maxLength maxRetries (Suc attempt) (Some error)
                  (waits @ [specifiedWait provider attempt]) g"
        by (simp add: g_def)
      from True have more: "int (Suc attempt) < maxRetries" by simp
      with ih have A: "Suc attempt < g_attempts g" "int (g_attempts g) \<le> maxRetries"
        by (simp_all add: loopRun_def)
      then have upt: "[attempt ..< g_attempts g - 1] = attempt # [Suc attempt ..< g_attempts g - 1]"
        by (simp add: upt_conv_Cons)
      from ih upt
      have w: "g_waits g = waits @ map (specifiedWait provider) [attempt ..< g_attempts g - 1]"
        by (simp add: loopRun_def)
      from ih have ihf: "\<forall>i \<in> {Suc attempt ..< g_attempts g - 1}. isl (provider i)"
        by (simp add: loopRun_def)
      have f: "\<forall>i \<in> {attempt ..< g_attempts g - 1}. isl (provider i)"
      proof
        fix i
        assume "i \<in> {attempt ..< g_attempts g - 1}"
        then have "i = attempt \<or> i \<in> {Suc attempt ..< g_attempts g - 1}" by auto
        with ihf Inl show "isl (provider i)" by auto
      qed
      from ih A have r: "\<forall>caption. g_result g = Inr caption \<longrightarrow>
           attempt < g_attempts g
           \<and> (\<exists>answer. provider (g_attempts g - 1) = Inr answer
                  \<and> caption = sanitizeAltText maxLength answer)"
        by (simp add: loopRun_def)
      from ih A have e: "\<forall>e. g_result g = Inl e \<longrightarrow>
           int (g_attempts g) \<ge> maxRetries
           \<and> (attempt < g_attempts g \<longrightarrow> isl (provider (g_attempts g - 1)))
           \<and> e = exhaustedError (if attempt < g_attempts g
                                  then lastFailure provider (g_attempts g)
                                  else lastError)"
        by (simp add: loopRun_def)
      from A lt have "attempt \<le> g_attempts g" "attempt < g_attempts g" by simp_all
      with A lt w f r e show ?thesis
        unfolding eq loopRun_def by blast
    next
      case False
      with lt have last: "\<not> int (Suc attempt) < maxRetries" by simp
      from lt Inl False
      have "attemptLoop provider maxLength maxRetries attempt lastError waits =
              attemptLoop provider maxLength maxRetries (Suc attempt) (Some error) waits"
        by (simp add: attemptLoop_failure)
      also from last have "\<dots> = \<lparr>g_result = Inl (exhaustedError (Some error)),
                                  g_attempts = Suc attempt, g_waits = waits\<rparr>"
        by (rule attemptLoop_stop)
      finally show ?thesis
        using False lt Inl by (simp add: loopRun_def lastFailure_def)
    qed
  qed
qed


lemma isRateLimitError_samples:
  "isRateLimitError tooManyRequests" "isRateLimitError rateLimitMessage"
  "\<not> isRateLimitError fetchFailed"
  by (simp_all add: isRateLimitError_def tooManyRequests_def rateLimitMessage_def fetchFailed_def
        newError_def regexTestCI_def js_def canonicalize_def)

text \<open>
  Claim C7. One call of the caption generator with max-retry count \<open>R\<close> makes at most \<open>R\<close>
  attempts. With the provider's key present, attempt \<open>k < R\<close> is made whenever every
  attempt before it failed, and a failed attempt \<open>i\<close> that is not the last allowed one
  (\<open>i < R - 1\<close>) is followed by a wait: the backoff delay of \<open>i\<close> when the failure is
  rate-limiting and \<open>1000 * (i + 1)\<close> milliseconds for any other error. There are no other
  waits: one after each attempt made but the last, never after the last allowed attempt,
  and each attempt waited after had failed.
\<close>

theorem generateAltText_attempts_and_waits:
  "(case generateAltText apiKey provider shop maxRetriesArg d of
      (g, d') \<Rightarrow>
        int (g_attempts g) \<le> max 0 (case maxRetriesArg of None \<Rightarrow> 3 | Some r \<Rightarrow> r)
        \<and> length (g_waits g) = g_attempts g - 1
        \<and> (\<forall>i < length (g_waits g).
              \<exists>error. provider i = Inl error
                \<and> g_waits g ! i = (if isRateLimitError error then calculateBackoffDelay i
                                   else 1000 * (i + 1)))
        \<and> (\<forall>k. \<not> (case apiKey of None \<Rightarrow> True | Some key \<Rightarrow> key = [])
                \<and> int k < (case maxRetriesArg of None \<Rightarrow> 3 | Some r \<Rightarrow> r)
                \<and> (\<forall>j < k. isl (provider j))
              \<longrightarrow> k < g_attempts g)
        \<and> (\<forall>i. \<not> (case apiKey of None \<Rightarrow> True | Some key \<Rightarrow> key = [])
                \<and> int i < (case maxRetriesArg of None \<Rightarrow> 3 | Some r \<Rightarrow> r) - 1
                \<and> (\<forall>j \<le> i. isl (provider j))
              \<longrightarrow> i < length (g_waits g)
                  \<and> (\<exists>error. provider i = Inl error
                        \<and> g_waits g ! i = (if isRateLimitError error
                                           then calculateBackoffDelay i
                                           else 1000 * (i + 1)))))"
proof (cases "case apiKey of None \<Rightarrow> True | Some key \<Rightarrow> key = []")
  case True
  then show ?thesis
    by (simp add: generateAltText_def)
next
  case False
  define R where "R = (case maxRetriesArg of None \<Rightarrow> 3 | Some r \<Rightarrow> r)"
  define maxLength where "maxLength = getMaxLength (set_altTextLength (fst (getSettings shop d)))"
  define g where "g = attemptLoop provider maxLength R 0 None []"
  from False
  have gen: "generateAltText apiKey provider shop maxRetriesArg d = (g, snd (getSettings shop d))"
    by (simp add: generateAltText_def g_def R_def maxLength_def Let_def split: prod.split)
  have run: "loopRun provider maxLength R 0 None [] g"
    unfolding g_def by (rule attemptLoop_loopRun)
  then have bound: "int (g_attempts g) \<le> max 0 R"
    by (auto simp: loopRun_def)
  from run have waits: "g_waits g = map (specifiedWait provider) [0 ..< g_attempts g - 1]"
    by (simp add: loopRun_def)
  from run have failed: "\<forall>i \<in> {0 ..< g_attempts g - 1}. isl (provider i)"
    by (simp add: loopRun_def)
  from waits have len: "length (g_waits g) = g_attempts g - 1" by simp
  have each: "\<exists>error. provider i = Inl error
                \<and> g_waits g ! i = (if isRateLimitError error then calculateBackoffDelay i
                                   else 1000 * (i + 1))"
    if "i < length (g_waits g)" for i
  proof -
    from that waits have i: "i < g_attempts g - 1" by simp
    with failed have "isl (provider i)" by simp
    then obtain error where error: "provider i = Inl error"
      by (cases "provider i") auto
    from i waits have "g_waits g ! i = specifiedWait provider i"
      by simp
    with error show ?thesis
      by (simp add: specifiedWait_def)
  qed
  have made: "k < g_attempts g" if k: "int k < R" and before: "\<forall>j < k. isl (provider j)" for k
  proof (rule ccontr)
    assume "\<not> k < g_attempts g"
    then have le: "g_attempts g \<le> k" by simp
    from k have "int 0 < R" by simp
    with run have pos: "0 < g_attempts g" by (simp add: loopRun_def)
    show False
    proof (cases "g_result g")
      case (Inr caption)
      with run obtain answer where "provider (g_attempts g - 1) = Inr answer"
        by (auto simp: loopRun_def)
      moreover from pos le before have "isl (provider (g_attempts g - 1))" by simp
      ultimately show False by simp
    next
      case (Inl e)
      with run have "R \<le> int (g_attempts g)" by (simp add: loopRun_def)
      with le k show False by simp
    qed
  qed
  have waited: "i < length (g_waits g)"
    if i: "int i < R - 1" and upto: "\<forall>j \<le> i. isl (provider j)" for i
  proof -
    from i have "int (Suc i) < R" by simp
    moreover from upto have "\<forall>j < Suc i. isl (provider j)" by (simp add: less_Suc_eq_le)
    ultimately have "Suc i < g_attempts g" by (rule made)
    with len show ?thesis by simp
  qed
  from bound len each made waited False show ?thesis
    by (simp add: gen R_def)
qed

theorem generateAltText_attempts_and_waits_witness:
  "\<not> (case Some (js ''key'') of None \<Rightarrow> True | Some key \<Rightarrow> key = [])
   \<and> int 1 < 3 - 1
   \<and> isl ((\<lambda>attempt. Inl tooManyRequests :: jsError + jsstring) 0)
   \<and> isl ((\<lambda>attempt. Inl tooManyRequests :: jsError + jsstring) 1)
   \<and> 1 < length (g_waits (fst (generateAltText (Some (js ''key''))
                                  (\<lambda>attempt. Inl tooManyRequests) (js ''shop'') (Some 3) emptyDb)))
   \<and> fst (generateAltText (Some (js ''key'')) (\<lambda>attempt. Inl tooManyRequests) (js ''shop'')
          (Some 3) emptyDb) =
     \<lparr>g_result = Inl (newError (js ''Rate limit exceeded - retry later'')), g_attempts = 3,
      g_waits = [calculateBackoffDelay 0, calculateBackoffDelay 1]\<rparr>
   \<and> fst (generateAltText (Some (js ''key''))
            (\<lambda>attempt. if attempt = 0 then Inl fetchFailed else Inr sampleShortCaption)
            (js ''shop'') (Some 3) emptyDb) =
     \<lparr>g_result = Inr (sanitizeAltText 100 sampleShortCaption), g_attempts = 2,
      g_waits = [1000]\<rparr>"
proof -
  let ?p = "\<lambda>attempt::nat. (Inl tooManyRequests :: jsError + jsstring)"
  let ?q = "\<lambda>attempt::nat. if attempt = 0 then Inl fetchFailed else Inr sampleShortCaption"
  let ?g = "fst (generateAltText (Some (js ''key'')) ?p (js ''shop'') (Some 3) emptyDb)"
  have key: "js ''key'' \<noteq> []"
    by (simp add: js_def)
  then have present: "\<not> (case Some (js ''key'') of None \<Rightarrow> True | Some key \<Rightarrow> key = [])"
    by simp
  have w: "specifiedWait ?p 0 = calculateBackoffDelay 0"
    "specifiedWait ?p (Suc 0) = calculateBackoffDelay 1"
    "specifiedWait ?q 0 = 1000"
    by (simp_all add: specifiedWait_def isRateLimitError_samples)
  have p: "attemptLoop ?p maxLength 3 0 None [] =
      \<lparr>g_result = Inl (exhaustedError (Some tooManyRequests)), g_attempts = 3,
       g_waits = [calculateBackoffDelay 0, calculateBackoffDelay 1]\<rparr>" for maxLength
    by (simp add: attemptLoop_failure attemptLoop_stop w numeral_3_eq_3)
  have q: "attemptLoop ?q maxLength 3 0 None [] =
      \<lparr>g_result = Inr (sanitizeAltText maxLength sampleShortCaption), g_attempts = 2,
       g_waits = [1000]\<rparr>" for maxLength
    by (simp add: attemptLoop_failure attemptLoop_success w numeral_2_eq_2)
  have e: "exhaustedError (Some tooManyRequests) =
             newError (js ''Rate limit exceeded - retry later'')"
    by (simp add: exhaustedError_def tooManyRequests_def)
  from key p e have first: "?g =
     \<lparr>g_result = Inl (newError (js ''Rate limit exceeded - retry later'')), g_attempts = 3,
      g_waits = [calculateBackoffDelay 0, calculateBackoffDelay 1]\<rparr>"
    by (simp add: generateAltText_def getSettings_def emptyDb_def DEFAULT_SETTINGS_def Let_def)
  from key q have second: "fst (generateAltText (Some (js ''key'')) ?q (js ''shop'') (Some 3) emptyDb) =
     \<lparr>g_result = Inr (sanitizeAltText 100 sampleShortCaption), g_attempts = 2,
      g_waits = [1000]\<rparr>"
    by (simp add: generateAltText_def getSettings_def emptyDb_def DEFAULT_SETTINGS_def Let_def)
  have fails: "\<forall>j \<le> 1. isl (?p j)"
    by simp
  have allowed: "int 1 < (case Some 3 of None \<Rightarrow> 3 | Some r \<Rightarrow> r) - 1"
    by simp
  from generateAltText_attempts_and_waits
      [where apiKey = "Some (js ''key'')" and provider = ?p and shop = "js ''shop''"
         and maxRetriesArg = "Some 3" and d = emptyDb]
  have "\<not> (case Some (js ''key'') of None \<Rightarrow> True | Some key \<Rightarrow> key = [])
          \<and> int 1 < (case Some 3 of None \<Rightarrow> 3 | Some r \<Rightarrow> r) - 1
          \<and> (\<forall>j \<le> 1. isl (?p j))
        \<longrightarrow> 1 < length (g_waits ?g)"
    by (cases "generateAltText (Some (js ''key'')) ?p (js ''shop'') (Some 3) emptyDb") fastforce
  with present allowed fails have waited: "1 < length (g_waits ?g)"
    by blast
  from present waited first second show ?thesis
    by simp
qed

lemma generateAltText_exhausted:
  assumes key: "apiKey = Some k" "k \<noteq> []"
    and R: "0 < R"
    and fail: "\<forall>i < nat R. isl (provider i)"
  shows "g_attempts (fst (generateAltText apiKey provider shop (Some R) d)) = nat R
         \<and> g_result (fst (generateAltText apiKey provider shop (Some R) d)) =
             Inl (exhaustedError (lastFailure provider (nat R)))"
proof -
  define maxLength where "maxLength = getMaxLength (set_altTextLength (fst (getSettings shop d)))"
  define g where "g = attemptLoop provider maxLength R 0 None []"
  from key have gen: "fst (generateAltText apiKey provider shop (Some R) d) = g"
    by (simp add: generateAltText_def g_def maxLength_def Let_def split: prod.split)
  have run: "loopRun provider maxLength R 0 None [] g"
    unfolding g_def by (rule attemptLoop_loopRun)
  with R have A: "0 < g_attempts g" "int (g_attempts g) \<le> R"
    by (simp_all add: loopRun_def)
  then have "g_attempts g - 1 < nat R" by linarith
  with fail have last_fails: "isl (provider (g_attempts g - 1))" by blast
  have "\<exists>e. g_result g = Inl e"
  proof (cases "g_result g")
    case (Inl e)
    then show ?thesis by simp
  next
    case (Inr caption)
    with run have "\<exists>answer. provider (g_attempts g - 1) = Inr answer"
      by (auto simp: loopRun_def)
    with last_fails show ?thesis by auto
  qed
  then obtain e where e: "g_result g = Inl e" by blast
  with run A have ge: "int (g_attempts g) \<ge> R"
    and kind: "e = exhaustedError (lastFailure provider (g_attempts g))"
    by (simp_all add: loopRun_def)
  from ge A have n: "g_attempts g = nat R" by linarith
  with kind e gen show ?thesis by simp
qed

lemma exhaustedError_kind:
  "exhaustedError (Some e) = newError (js ''Rate limit exceeded - retry later'')
     \<longleftrightarrow> e_status e = Some 429"
  by (simp add: exhaustedError_def newError_def js_def)

lemma exhaustedError_generic:
  "e_status e \<noteq> Some 429 \<Longrightarrow>
     exhaustedError (Some e) =
       newError (js ''Failed to generate alt-text: '' @
                 (if e_message e \<noteq> [] then e_message e else js ''Unknown error''))"
  by (simp add: exhaustedError_def)

text \<open>
  Claim C2 says that, when every attempt fails, the rate-limit-specific error is returned
  exactly when the last failure was rate-limiting, by its status or by its message. The
  code decides it by the status alone (\<open>exhaustedError_kind\<close>): after three failures whose
  message matches the rate-limit pattern but that carry no status, each followed by the
  backoff delay of a rate-limiting failure, the generic error is returned.
\<close>

theorem generateAltText_rate_limit_by_message:
  "isRateLimitError rateLimitMessage
   \<and> fst (generateAltText (Some (js ''key'')) (\<lambda>attempt. Inl rateLimitMessage) (js ''shop'')
            (Some 3) emptyDb) =
       \<lparr>g_result = Inl (newError (js ''Failed to generate alt-text: Rate limit exceeded'')),
        g_attempts = 3, g_waits = [2000, 4000]\<rparr>"
proof -
  have rl: "isRateLimitError rateLimitMessage"
    by (rule isRateLimitError_samples)
  have key: "js ''key'' \<noteq> []"
    by (simp add: js_def)
  have w: "specifiedWait (\<lambda>attempt. Inl rateLimitMessage) 0 = 2000"
    "specifiedWait (\<lambda>attempt. Inl rateLimitMessage) (Suc 0) = 4000"
    by (simp_all add: specifiedWait_def rl calculateBackoffDelay_def baseDelay_def maxDelay_def)
  have loop: "attemptLoop (\<lambda>attempt. Inl rateLimitMessage) maxLength 3 0 None [] =
      \<lparr>g_result = Inl (exhaustedError (Some rateLimitMessage)), g_attempts = 3,
       g_waits = [2000, 4000]\<rparr>" for maxLength
    by (simp add: attemptLoop_failure attemptLoop_stop w numeral_3_eq_3)
  have "exhaustedError (Some rateLimitMessage) =
          newError (js ''Failed to generate alt-text: Rate limit exceeded'')"
    by (simp add: exhaustedError_def rateLimitMessage_def newError_def js_def)
  with rl key loop show ?thesis
    by (simp add: generateAltText_def Let_def split: prod.split)
qed

section \<open>Properties of the scan orchestrator\<close>

lemma trim_Nil [simp]: "trim [] = []"
  by (simp add: trim_def trimStart_def trimEnd_def)


lemma getSettings_tables:
  "scanHistory (snd (getSettings shop d)) = scanHistory d"
  "processedImage (snd (getSettings shop d)) = processedImage d"
  "failedJob (snd (getSettings shop d)) = failedJob d"
  "appSettings (snd (getSettings shop d)) shop \<noteq> None"
  by (simp_all add: getSettings_def split: option.split)

lemma getSettings_existing:
  "appSettings d shop = Some s \<Longrightarrow> getSettings shop d = (s, d)"
  by (simp add: getSettings_def)

lemma generateAltText_tables:
  "scanHistory (snd (generateAltText apiKey provider shop maxRetriesArg d)) = scanHistory d"
  "processedImage (snd (generateAltText apiKey provider shop maxRetriesArg d)) = processedImage d"
  "failedJob (snd (generateAltText apiKey provider shop maxRetriesArg d)) = failedJob d"
  using getSettings_tables [of shop d]
  by (auto simp: generateAltText_def Let_def split: prod.split)

lemma generateAltText_tablesD:
  assumes "generateAltText apiKey provider shop maxRetriesArg d = (g, d')"
  shows "scanHistory d' = scanHistory d \<and> processedImage d' = processedImage d
         \<and> failedJob d' = failedJob d"
  using generateAltText_tables [of apiKey provider shop maxRetriesArg d] assms by simp

lemma generateAltText_existing:
  "appSettings d shop = Some s \<Longrightarrow> snd (generateAltText apiKey provider shop maxRetriesArg d) = d"
  by (simp add: generateAltText_def Let_def getSettings_existing)

lemma generateAltText_settings:
  "appSettings d shop \<noteq> None \<Longrightarrow>
     appSettings (snd (generateAltText apiKey provider shop maxRetriesArg d)) shop \<noteq> None"
  by (auto simp: generateAltText_existing)

lemma recordImageProcessing_tables:
  "scanHistory (recordImageProcessing data now d) = scanHistory d"
  "failedJob (recordImageProcessing data now d) = failedJob d"
  "appSettings (recordImageProcessing data now d) = appSettings d"
  "\<exists>r. processedImage (recordImageProcessing data now d) = processedImage d @ [r]
        \<and> pi_scanId r = ip_scanId data \<and> pi_productId r = ip_productId data
        \<and> pi_imageId r = ip_imageId data \<and> pi_status r = ip_status data"
  by (simp_all add: recordImageProcessing_def)

lemma addFailedJob_tables:
  "scanHistory (snd (addFailedJob data now d)) = scanHistory d"
  "processedImage (snd (addFailedJob data now d)) = processedImage d"
  "appSettings (snd (addFailedJob data now d)) = appSettings d"
  by (simp_all add: addFailedJob_def Let_def)

lemma catchBlock_outcome:
  assumes "catchBlock e k settings shop sid product m now error st = Inr st'"
  shows "st_totalImages st' = st_totalImages st
         \<and> st_missingAltText st' = st_missingAltText st
         \<and> st_updatedCount st' = st_updatedCount st
         \<and> st_errorCount st' = st_errorCount st + 1
         \<and> scanHistory (st_db st') = scanHistory (st_db st)
         \<and> appSettings (st_db st') = appSettings (st_db st)
         \<and> (\<exists>r. processedImage (st_db st') = processedImage (st_db st) @ [r]
               \<and> pi_productId r = p_id product \<and> pi_imageId r = m_id m
               \<and> pi_status r = Failed)"
  using assms
  by (auto simp: catchBlock_def Let_def addFailedJob_tables recordImageProcessing_def
        split: option.splits if_splits)















lemma sample_generation:
  "appSettings d (js ''shop'') = Some DEFAULT_SETTINGS \<Longrightarrow>
   generateAltText (Some (js ''key'')) (\<lambda>attempt. Inr (js ''Blue board'')) (js ''shop'') (Some 3) d
     = (\<lparr>g_result = Inr (js ''Blue board''), g_attempts = 1, g_waits = []\<rparr>, d)"
proof -
  assume s: "appSettings d (js ''shop'') = Some DEFAULT_SETTINGS"
  have "cleanCaption 100 (js ''Blue board'')"
    by (simp add: cleanCaption_def js_def isWhiteSpace_def isQuote_def)
  then have "normalizeAltText (js ''Blue board'') = js ''Blue board''"
    by (rule normalizeAltText_clean)
  then have c: "sanitizeAltText 100 (js ''Blue board'') = js ''Blue board''"
    by (simp add: sanitizeAltText_def) (simp add: js_def)
  have key: "js ''key'' \<noteq> []" by (simp add: js_def)
  have "attemptLoop (\<lambda>attempt. Inr (js ''Blue board'')) 100 3 0 None [] =
          \<lparr>g_result = Inr (sanitizeAltText 100 (js ''Blue board'')), g_attempts = Suc 0, g_waits = []\<rparr>"
    by (subst attemptLoop.simps) simp
  with c key s show ?thesis
    by (simp add: generateAltText_def getSettings_def DEFAULT_SETTINGS_def Let_def)
qed

lemma sampleState_settings: "appSettings (st_db sampleState) (js ''shop'') = Some DEFAULT_SETTINGS"
  by (simp add: sampleState_def getSettings_def emptyDb_def)



lemma sample_scan_steps:
  "\<not> hasAltText (m_alt imageA)" "hasAltText (m_alt imageB)" "\<not> hasAltText (m_alt imageW)"
  "imageMedia productA = [imageA]" "imageMedia productB = [imageB]"
  "imageMedia productW = [imageW]"
  "js ''Blue board'' \<noteq> []"
  by (simp_all add: hasAltText_def imageA_def imageB_def imageW_def imageMedia_def
        productA_def productB_def productW_def)
     (simp_all add: js_def trim_def trimStart_def trimEnd_def isWhiteSpace_def)




text \<open>
  Why the sum of the three counts is only bounded when the writes of the try block
  succeed: with one image, a caption generated and written back, and the outcome-record
  write throwing, the image is counted as updated and then, in the catch block, as failed.
\<close>

lemma action_counts_twice:
  "\<exists>st row.
     action flakyEnv (js ''shop'') False emptyDb = Inr st
     \<and> scanHistory (st_db st) 1 = Some row
     \<and> s_totalImages row = 1 \<and> s_imagesSkipped row = 0
     \<and> s_imagesProcessed row = 1 \<and> s_imagesFailed row = 1"
proof -
  have "\<not> isRetryableError storeDown"
    by (simp add: isRetryableError_def storeDown_def newError_def regexTestCI_def js_def
          canonicalize_def)
  then show ?thesis
    by (simp add: action_def processProduct_def processImage_def catchBlock_def
          sample_scan_steps sample_generation Let_def getSettings_def emptyDb_def
          createScanHistory_def completeScanHistory_def recordImageProcessing_def
          sampleEnv_def flakyEnv_def DEFAULT_SETTINGS_def)
qed

lemma scan_start_has_settings:
  "appSettings (snd (createScanHistory shop forceAll now (snd (getSettings shop d)))) shop \<noteq> None"
  using getSettings_tables(4) [of shop d] by (simp add: createScanHistory_def Let_def)

lemma processImage_keeps_settings:
  assumes "appSettings (st_db st) shop \<noteq> None"
    and "processImage e forceAll settings shop sid product st m = Inr st'"
  shows "appSettings (st_db st') shop \<noteq> None"
proof -
  from assms(1) obtain s where s: "appSettings (st_db st) shop = Some s" by blast
  have same: "d' = st_db st"
    if "generateAltText apiKey provider shop maxRetriesArg (st_db st) = (g, d')"
    for apiKey provider maxRetriesArg g d'
    using generateAltText_existing [OF s, of apiKey provider maxRetriesArg] that by simp
  from assms show ?thesis
    by (auto simp: processImage_def Let_def recordImageProcessing_def addFailedJob_tables
          dest!: same catchBlock_outcome
          split: prod.splits sum.splits option.splits if_splits)
qed

lemma processImages_keeps_settings:
  assumes "appSettings (st_db st) shop \<noteq> None"
    and "processImages e forceAll settings shop sid product st ms = Inr st'"
  shows "appSettings (st_db st') shop \<noteq> None"
  using assms
proof (induction ms arbitrary: st)
  case Nil
  then show ?case by simp
next
  case (Cons m ms)
  from Cons.prems(2) obtain st1
    where one: "processImage e forceAll settings shop sid product st m = Inr st1"
      and rest: "processImages e forceAll settings shop sid product st1 ms = Inr st'"
    by (auto split: sum.splits)
  from Cons.prems(1) one have "appSettings (st_db st1) shop \<noteq> None"
    by (rule processImage_keeps_settings)
  from Cons.IH [OF this rest] show ?case .
qed

lemma processProducts_keeps_settings:
  assumes "appSettings (st_db st) shop \<noteq> None"
    and "processProducts e forceAll settings shop sid st products = Inr st'"
  shows "appSettings (st_db st') shop \<noteq> None"
  using assms
proof (induction products arbitrary: st)
  case Nil
  then show ?case by simp
next
  case (Cons p products)
  from Cons.prems(2) obtain st1
    where one: "processProduct e forceAll settings shop sid st p = Inr st1"
      and rest: "processProducts e forceAll settings shop sid st1 products = Inr st'"
    by (auto split: sum.splits)
  from Cons.prems(1) one have "appSettings (st_db st1) shop \<noteq> None"
    unfolding processProduct_def by (rule processImages_keeps_settings)
  from Cons.IH [OF this rest] show ?case .
qed

text \<open>
  Claim C8. When the write-back mutation of an image answers with a non-empty list of
  user errors, the image is counted as failed and nothing else changes: the store after
  the image is the store before it, so no outcome record is created and no job is
  enqueued. (The shop's settings row exists by then, the scan reads it before the loop.)
  Every other path that counts one failure for the image appends a \<open>failed\<close> outcome
  record for it.
\<close>

theorem userErrors_branch_leaves_store:
  "((forceAll \<or> \<not> hasAltText (m_alt mediaEdge))
     \<and> appSettings (st_db st) shop \<noteq> None
     \<and> g_result (fst (generateAltText (env_apiKey e) (env_provider e (st_totalImages st)) shop
                        (Some (set_maxRetries settings)) (st_db st))) = Inr newAltText
     \<and> newAltText \<noteq> []
     \<and> env_mutation e (st_totalImages st) = Inr (Some userErrors)
     \<and> userErrors \<noteq> []
    \<longrightarrow> processImage e forceAll settings shop scanRecordId product st mediaEdge =
          Inr (st\<lparr>st_totalImages := st_totalImages st + 1,
                  st_missingAltText := st_missingAltText st + 1,
                  st_errorCount := st_errorCount st + 1\<rparr>))
   \<and> (\<forall>st'. processImage e forceAll settings shop scanRecordId product st mediaEdge = Inr st'
           \<and> st_errorCount st' = st_errorCount st + 1
       \<longrightarrow> (\<exists>r. processedImage (st_db st') = processedImage (st_db st) @ [r]
                \<and> pi_status r = Failed \<and> pi_imageId r = m_id mediaEdge)
           \<or> (\<exists>caption rejected.
                 g_result (fst (generateAltText (env_apiKey e)
                                  (env_provider e (st_totalImages st)) shop
                                  (Some (set_maxRetries settings)) (st_db st))) = Inr caption
                 \<and> caption \<noteq> []
                 \<and> env_mutation e (st_totalImages st) = Inr (Some rejected)
                 \<and> rejected \<noteq> []))"
proof (intro conjI impI allI)
  assume a: "(forceAll \<or> \<not> hasAltText (m_alt mediaEdge))
     \<and> appSettings (st_db st) shop \<noteq> None
     \<and> g_result (fst (generateAltText (env_apiKey e) (env_provider e (st_totalImages st)) shop
                        (Some (set_maxRetries settings)) (st_db st))) = Inr newAltText
     \<and> newAltText \<noteq> []
     \<and> env_mutation e (st_totalImages st) = Inr (Some userErrors)
     \<and> userErrors \<noteq> []"
  then obtain s where s: "appSettings (st_db st) shop = Some s" by blast
  have same: "snd (generateAltText (env_apiKey e) (env_provider e (st_totalImages st)) shop
                        (Some (set_maxRetries settings)) (st_db st)) = st_db st"
    using s by (rule generateAltText_existing)
  from a same
  show "processImage e forceAll settings shop scanRecordId product st mediaEdge =
          Inr (st\<lparr>st_totalImages := st_totalImages st + 1,
                  st_missingAltText := st_missingAltText st + 1,
                  st_errorCount := st_errorCount st + 1\<rparr>)"
    by (auto simp: processImage_def Let_def split: prod.splits)
next
  fix st'
  assume "processImage e forceAll settings shop scanRecordId product st mediaEdge = Inr st'
           \<and> st_errorCount st' = st_errorCount st + 1"
  then show "(\<exists>r. processedImage (st_db st') = processedImage (st_db st) @ [r]
                \<and> pi_status r = Failed \<and> pi_imageId r = m_id mediaEdge)
           \<or> (\<exists>caption rejected.
                 g_result (fst (generateAltText (env_apiKey e)
                                  (env_provider e (st_totalImages st)) shop
                                  (Some (set_maxRetries settings)) (st_db st))) = Inr caption
                 \<and> caption \<noteq> []
                 \<and> env_mutation e (st_totalImages st) = Inr (Some rejected)
                 \<and> rejected \<noteq> [])"
    by (auto simp: processImage_def Let_def recordImageProcessing_def addFailedJob_tables
          dest!: generateAltText_tablesD catchBlock_outcome
          split: prod.splits sum.splits option.splits if_splits)
qed

theorem userErrors_branch_leaves_store_witness:
  "\<not> hasAltText (m_alt imageA)
   \<and> appSettings (st_db sampleState) (js ''shop'') \<noteq> None
   \<and> g_result (fst (generateAltText (env_apiKey rejectingEnv)
                      (env_provider rejectingEnv (st_totalImages sampleState)) (js ''shop'')
                      (Some (set_maxRetries DEFAULT_SETTINGS)) (st_db sampleState)))
       = Inr (js ''Blue board'')
   \<and> env_mutation rejectingEnv (st_totalImages sampleState)
       = Inr (Some [([js ''alt''], js ''Alt is invalid'')])
   \<and> processImage rejectingEnv False DEFAULT_SETTINGS (js ''shop'') 0 productA sampleState imageA
       = Inr (sampleState\<lparr>st_totalImages := 1, st_missingAltText := 1, st_errorCount := 1\<rparr>)"
proof -
  have a: "\<not> hasAltText (m_alt imageA)"
    by (simp add: hasAltText_def imageA_def)
  have b: "appSettings (st_db sampleState) (js ''shop'') \<noteq> None"
    by (simp add: sampleState_settings)
  have c: "g_result (fst (generateAltText (env_apiKey rejectingEnv)
                      (env_provider rejectingEnv (st_totalImages sampleState)) (js ''shop'')
                      (Some (set_maxRetries DEFAULT_SETTINGS)) (st_db sampleState)))
       = Inr (js ''Blue board'')"
    using sample_generation [OF sampleState_settings]
    by (simp add: rejectingEnv_def sampleEnv_def DEFAULT_SETTINGS_def)
  have d: "js ''Blue board'' \<noteq> []"
    by (simp add: js_def)
  have m: "env_mutation rejectingEnv (st_totalImages sampleState)
       = Inr (Some [([js ''alt''], js ''Alt is invalid'')])"
    by (simp add: rejectingEnv_def)
  have z: "st_totalImages sampleState = 0" "st_missingAltText sampleState = 0"
    "st_errorCount sampleState = 0"
    by (simp_all add: sampleState_def)
  from a b c d m
    userErrors_branch_leaves_store
      [where forceAll = False and mediaEdge = imageA and st = sampleState and shop = "js ''shop''"
         and e = rejectingEnv and settings = DEFAULT_SETTINGS and newAltText = "js ''Blue board''"
         and userErrors = "[([js ''alt''], js ''Alt is invalid'')]" and scanRecordId = 0
         and product = productA]
  show ?thesis
    by (simp add: z)
qed

end
